theory Spec2Isabelle
  imports Main
begin

section \<open>The LogosAPI bridge of index.js\<close>

text \<open>
  The class \<open>LogosAPI\<close> of \<open>index.js\<close> is embedded by explicit state passing. The
  fields of the object are a record; every method takes the environment and the state
  and returns its outcome together with the new state. A \<open>throw\<close> of the source is the
  \<open>Inl\<close> branch of the outcome. Everything the class reaches outside itself (the file
  system, the path functions of node, the clock, the native library behind ffi-napi,
  \<open>JSON.parse\<close>) is a field of the environment record. Each native entry point that
  is invoked is appended, with what it returned, to the field \<open>trace\<close> of the state,
  so that "no native entry point is invoked" is a statement about \<open>trace\<close>.
\<close>

subsection \<open>Errors, messages, callbacks\<close>

datatype error = Error string | TypeError string

fun message :: "error \<Rightarrow> string" where
  "message (Error m) = m"
| "message (TypeError m) = m"

text \<open>
  The second argument handed to a user callback: the value of \<open>JSON.parse(message)\<close>
  when parsing succeeds, the raw message otherwise. The raw message is what ffi-napi
  makes of a C string: a string, or \<open>null\<close> (\<open>None\<close>).
\<close>

datatype 'j parsedMessage = Parsed 'j | Raw "string option"

record meta =
  meta_callbackId :: string
  meta_timestamp :: string
  meta_rawMessage :: "string option"

text \<open>
  A user callback \<open>(success, message, meta) => ...\<close> acts on the caller's own part of
  the world, of type \<open>'u\<close>, and either returns (\<open>None\<close>) or throws (\<open>Some e\<close>).
\<close>

type_synonym ('j, 'u) userCallback =
  "bool \<Rightarrow> 'j parsedMessage \<Rightarrow> meta \<Rightarrow> 'u \<Rightarrow> error option \<times> 'u"

text \<open>
  The closure built by \<open>_createFFICallback(userCallback, callbackId)\<close>: it captures
  exactly these two values and nothing of the bridge object.
\<close>

datatype ('j, 'u) ffiCallback =
  FFICallback (cb_userCallback: "('j, 'u) userCallback") (cb_callbackId: string)

subsection \<open>The native interface\<close>

text \<open>
  The entry points declared in \<open>_loadLibrary\<close>, with the arguments the class passes.
  A pointer is an address, \<open>0\<close> being \<open>NULL\<close>.
\<close>

datatype ('j, 'u) ncall =
    logos_core_init int nat
  | logos_core_set_plugins_dir string
  | logos_core_start
  | logos_core_exec
  | logos_core_cleanup
  | logos_core_get_loaded_plugins
  | logos_core_get_known_plugins
  | logos_core_load_plugin string
  | logos_core_unload_plugin string
  | logos_core_process_plugin string
  | logos_core_call_plugin_method_async string string string "('j, 'u) ffiCallback" nat
  | logos_core_register_event_listener string string "('j, 'u) ffiCallback" nat
  | logos_core_process_events

datatype nret = RVoid | RInt int | RString "string option" | RPointer nat

type_synonym ('j, 'u) history = "(('j, 'u) ncall \<times> nret) list"

record memory =
  readPointer :: "nat \<Rightarrow> nat"
  readCString :: "nat \<Rightarrow> string"

record ('j, 'u) env =
  platform :: string
  dirname :: string
  cwd :: string
  existsSync :: "string \<Rightarrow> bool"
  path_resolve :: "string list \<Rightarrow> string"
  path_join :: "string list \<Rightarrow> string"
  ffi_Library :: "string \<Rightarrow> error option"
  native_int :: "('j, 'u) history \<Rightarrow> ('j, 'u) ncall \<Rightarrow> int"
  native_string :: "('j, 'u) history \<Rightarrow> ('j, 'u) ncall \<Rightarrow> string option"
  native_pointer :: "('j, 'u) history \<Rightarrow> ('j, 'u) ncall \<Rightarrow> nat"
  heap :: "('j, 'u) history \<Rightarrow> memory"
  sizeof_pointer :: nat
  Date_now :: "nat \<Rightarrow> string"
  Math_random :: "nat \<Rightarrow> string"
  toISOString :: "nat \<Rightarrow> string"
  JSON_parse :: "string option \<Rightarrow> 'j option"

text \<open>
  What a native call returns, by the return type declared for it in \<open>_loadLibrary\<close>:
  \<open>'int'\<close> for exec, load and unload, \<open>'string'\<close> for process, a string-array pointer
  for the two queries, \<open>'void'\<close> for the rest. The value is the library's answer to
  the call after the calls made so far.
\<close>

fun native_return :: "('j, 'u) env \<Rightarrow> ('j, 'u) history \<Rightarrow> ('j, 'u) ncall \<Rightarrow> nret" where
  "native_return E h logos_core_exec = RInt (native_int E h logos_core_exec)"
| "native_return E h (logos_core_load_plugin n) = RInt (native_int E h (logos_core_load_plugin n))"
| "native_return E h (logos_core_unload_plugin n) =
     RInt (native_int E h (logos_core_unload_plugin n))"
| "native_return E h (logos_core_process_plugin p) =
     RString (native_string E h (logos_core_process_plugin p))"
| "native_return E h logos_core_get_loaded_plugins =
     RPointer (native_pointer E h logos_core_get_loaded_plugins)"
| "native_return E h logos_core_get_known_plugins =
     RPointer (native_pointer E h logos_core_get_known_plugins)"
| "native_return E h c = RVoid"

subsection \<open>The state of a bridge\<close>

record ('j, 'u) pendingCall =
  pc_callback :: "('j, 'u) userCallback"
  pc_ffiCallback :: "('j, 'u) ffiCallback"

record ('j, 'u) eventListener =
  el_pluginName :: string
  el_eventName :: string
  el_callback :: "('j, 'u) userCallback"
  el_ffiCallback :: "('j, 'u) ffiCallback"

text \<open>
  The fields of the object (\<open>options.libPath\<close>, \<open>options.pluginsDir\<close>, \<open>LogosCore\<close>,
  \<open>isInitialized\<close>, \<open>isStarted\<close>, \<open>eventProcessingInterval\<close>, \<open>callbacks\<close>,
  \<open>eventListeners\<close>) and the world around it: the native calls made so far, what
  \<open>console.error\<close> printed, the caller's own state, and how many times the clock and
  the random generator have been read.
\<close>

record ('j, 'u) bridge =
  options_libPath :: "string option"
  options_pluginsDir :: "string option"
  LogosCore :: "string option"
  isInitialized :: bool
  isStarted :: bool
  eventProcessingInterval :: "nat option"
  callbacks :: "string \<rightharpoonup> ('j, 'u) pendingCall"
  eventListeners :: "string \<rightharpoonup> ('j, 'u) eventListener"
  trace :: "('j, 'u) history"
  console :: "(string \<times> error) list"
  user :: 'u
  readings :: nat

text \<open>The state the constructor sets up before it looks at \<open>autoInit\<close>.\<close>

definition fresh :: "string option \<Rightarrow> string option \<Rightarrow> 'u \<Rightarrow> ('j, 'u) bridge" where
  "fresh lib dir u =
     \<lparr>options_libPath = lib, options_pluginsDir = dir, LogosCore = None,
      isInitialized = False, isStarted = False, eventProcessingInterval = None,
      callbacks = Map.empty, eventListeners = Map.empty,
      trace = [], console = [], user = u, readings = 0\<rparr>"

text \<open>
  \<open>this.LogosCore.f(...)\<close>: reading a property of \<open>null\<close> throws a TypeError;
  otherwise the entry point runs and the call is recorded with its return value.
\<close>

definition call_native ::
  "('j, 'u) env \<Rightarrow> ('j, 'u) ncall \<Rightarrow> ('j, 'u) bridge \<Rightarrow> (error + nret) \<times> ('j, 'u) bridge" where
  "call_native E c s =
     (case LogosCore s of
        None \<Rightarrow> (Inl (TypeError ''Cannot read properties of null''), s)
      | Some lib \<Rightarrow>
          (let r = native_return E (trace s) c
           in (Inr r, s\<lparr>trace := trace s @ [(c, r)]\<rparr>)))"

definition not_initialized :: error where
  "not_initialized = Error ''LogosAPI must be initialized first''"

subsection \<open>Loading the library and initialising the core\<close>

definition getLibraryExtension :: "('j, 'u) env \<Rightarrow> string" where
  "getLibraryExtension E =
     (if platform E = ''darwin'' then ''.dylib''
      else if platform E = ''win32'' then ''.dll''
      else ''.so'')"

text \<open>
  An option of the constructor is \<open>undefined\<close> (\<open>None\<close>) or a string; \<open>!libPath\<close> holds
  for \<open>undefined\<close> and for the empty string.
\<close>

definition loadLibrary ::
  "('j, 'u) env \<Rightarrow> ('j, 'u) bridge \<Rightarrow> (error + unit) \<times> ('j, 'u) bridge" where
  "loadLibrary E s =
     (let libExtension = getLibraryExtension E;
          sdk = path_resolve E [dirname E, ''lib'', ''liblogos_core'' @ libExtension];
          legacy = path_resolve E [dirname E, ''../../../logos-liblogos/build/lib'',
                                   ''liblogos_core'' @ libExtension];
          libPath = (case options_libPath s of
                       Some p \<Rightarrow> (if p = [] then (if \<not> existsSync E sdk then legacy else sdk) else p)
                     | None \<Rightarrow> (if \<not> existsSync E sdk then legacy else sdk))
      in if \<not> existsSync E libPath
         then (Inl (Error (''Library file not found at: '' @ libPath @
                           ''. Please build the core library first.'')), s)
         else (case ffi_Library E libPath of
                 Some e \<Rightarrow> (Inl e, s)
               | None \<Rightarrow> (Inr (), s\<lparr>LogosCore := Some libPath\<rparr>)))"

text \<open>
  The plugins directory, as \<open>_initializeCore\<close> and \<open>processPlugin\<close> both compute it:
  the configured one, else \<open>cwd/plugins\<close>, else \<open>cwd/modules\<close>, else the legacy tree.
\<close>

definition resolvePluginsDir :: "('j, 'u) env \<Rightarrow> ('j, 'u) bridge \<Rightarrow> string" where
  "resolvePluginsDir E s =
     (let d1 = path_resolve E [cwd E, ''plugins''];
          d2 = (if \<not> existsSync E d1 then path_resolve E [cwd E, ''modules''] else d1);
          d3 = (if \<not> existsSync E d2
                then path_resolve E [dirname E, ''../../../logos-liblogos/build/modules'']
                else d2)
      in case options_pluginsDir s of
           Some p \<Rightarrow> (if p = [] then d3 else p)
         | None \<Rightarrow> d3)"

definition initializeCore ::
  "('j, 'u) env \<Rightarrow> ('j, 'u) bridge \<Rightarrow> (error + unit) \<times> ('j, 'u) bridge" where
  "initializeCore E s =
     (case call_native E (logos_core_init 0 0) s of
        (Inl e, s1) \<Rightarrow> (Inl e, s1)
      | (Inr _, s1) \<Rightarrow>
          (let pluginsDir = resolvePluginsDir E s1
           in if \<not> existsSync E pluginsDir
              then (Inl (Error (''Plugins directory not found at: '' @ pluginsDir @
                     ''. Please ensure plugins are available in your application directory.'')),
                    s1)
              else (case call_native E (logos_core_set_plugins_dir pluginsDir) s1 of
                      (Inl e, s2) \<Rightarrow> (Inl e, s2)
                    | (Inr _, s2) \<Rightarrow> (Inr (), s2))))"

definition init :: "('j, 'u) env \<Rightarrow> ('j, 'u) bridge \<Rightarrow> (error + bool) \<times> ('j, 'u) bridge" where
  "init E s =
     (if isInitialized s then (Inl (Error ''LogosAPI is already initialized''), s)
      else (case loadLibrary E s of
              (Inl e, s1) \<Rightarrow> (Inl (Error (''Failed to initialize LogosAPI: '' @ message e)), s1)
            | (Inr _, s1) \<Rightarrow>
                (case initializeCore E s1 of
                   (Inl e, s2) \<Rightarrow>
                     (Inl (Error (''Failed to initialize LogosAPI: '' @ message e)), s2)
                 | (Inr _, s2) \<Rightarrow> (Inr True, s2\<lparr>isInitialized := True\<rparr>))))"

text \<open>
  The constructor: the fields are set, then \<open>init()\<close> runs when \<open>autoInit\<close> is not
  \<open>false\<close>; an error of \<open>init\<close> leaves the constructor.
\<close>

definition LogosAPI ::
  "('j, 'u) env \<Rightarrow> string option \<Rightarrow> string option \<Rightarrow> bool \<Rightarrow> 'u \<Rightarrow>
   (error + unit) \<times> ('j, 'u) bridge" where
  "LogosAPI E lib dir autoInit u =
     (if autoInit
      then (case init E (fresh lib dir u) of
              (Inl e, s) \<Rightarrow> (Inl e, s)
            | (Inr _, s) \<Rightarrow> (Inr (), s))
      else (Inr (), fresh lib dir u))"

definition start :: "('j, 'u) env \<Rightarrow> ('j, 'u) bridge \<Rightarrow> (error + bool) \<times> ('j, 'u) bridge" where
  "start E s =
     (if \<not> isInitialized s then (Inl (Error ''LogosAPI must be initialized before starting''), s)
      else if isStarted s then (Inl (Error ''LogosAPI is already started''), s)
      else (case call_native E logos_core_start s of
              (Inl e, s1) \<Rightarrow> (Inl e, s1)
            | (Inr _, s1) \<Rightarrow> (Inr True, s1\<lparr>isStarted := True\<rparr>)))"

subsection \<open>Reading a native array of strings\<close>

text \<open>
  The loop of \<open>_convertCStringArrayToJS\<close> has no bound of its own: it ends at the
  first null entry. \<open>None\<close> is the loop that never meets one.
\<close>

partial_function (option) scanCStringArray ::
  "memory \<Rightarrow> nat \<Rightarrow> nat \<Rightarrow> nat \<Rightarrow> string list \<Rightarrow> string list option" where
  "scanCStringArray M sz cStringArray i result =
     (if readPointer M (cStringArray + i * sz) = 0 then Some result
      else scanCStringArray M sz cStringArray (Suc i)
             (result @ [readCString M (readPointer M (cStringArray + i * sz))]))"

definition convertCStringArrayToJS :: "memory \<Rightarrow> nat \<Rightarrow> nat \<Rightarrow> string list option" where
  "convertCStringArrayToJS M sz cStringArray =
     (if cStringArray = 0 then Some [] else scanCStringArray M sz cStringArray 0 [])"

fun pointer_of :: "nret \<Rightarrow> nat" where
  "pointer_of (RPointer p) = p"
| "pointer_of r = 0"

text \<open>
  The two queries return \<open>Inr None\<close> when the conversion loop never ends.
\<close>

definition getLoadedPlugins ::
  "('j, 'u) env \<Rightarrow> ('j, 'u) bridge \<Rightarrow> (error + string list option) \<times> ('j, 'u) bridge" where
  "getLoadedPlugins E s =
     (if \<not> isInitialized s then (Inl not_initialized, s)
      else (case call_native E logos_core_get_loaded_plugins s of
              (Inl e, s1) \<Rightarrow> (Inl e, s1)
            | (Inr loadedPluginsPtr, s1) \<Rightarrow>
                (Inr (convertCStringArrayToJS (heap E (trace s1)) (sizeof_pointer E)
                        (pointer_of loadedPluginsPtr)), s1)))"

definition getKnownPlugins ::
  "('j, 'u) env \<Rightarrow> ('j, 'u) bridge \<Rightarrow> (error + string list option) \<times> ('j, 'u) bridge" where
  "getKnownPlugins E s =
     (if \<not> isInitialized s then (Inl not_initialized, s)
      else (case call_native E logos_core_get_known_plugins s of
              (Inl e, s1) \<Rightarrow> (Inl e, s1)
            | (Inr knownPluginsPtr, s1) \<Rightarrow>
                (Inr (convertCStringArrayToJS (heap E (trace s1)) (sizeof_pointer E)
                        (pointer_of knownPluginsPtr)), s1)))"

record pluginStatus =
  status_loaded :: "string list"
  status_known :: "string list"

definition getPluginStatus ::
  "('j, 'u) env \<Rightarrow> ('j, 'u) bridge \<Rightarrow> (error + pluginStatus option) \<times> ('j, 'u) bridge" where
  "getPluginStatus E s =
     (case getLoadedPlugins E s of
        (Inl e, s1) \<Rightarrow> (Inl e, s1)
      | (Inr None, s1) \<Rightarrow> (Inr None, s1)
      | (Inr (Some l), s1) \<Rightarrow>
          (case getKnownPlugins E s1 of
             (Inl e, s2) \<Rightarrow> (Inl e, s2)
           | (Inr None, s2) \<Rightarrow> (Inr None, s2)
           | (Inr (Some k), s2) \<Rightarrow> (Inr (Some \<lparr>status_loaded = l, status_known = k\<rparr>), s2)))"

subsection \<open>Plugins\<close>

fun truthy :: "nret \<Rightarrow> bool" where
  "truthy (RString (Some t)) = (t \<noteq> [])"
| "truthy (RString None) = False"
| "truthy (RInt i) = (i \<noteq> 0)"
| "truthy (RPointer p) = True"
| "truthy RVoid = False"

text \<open>The value of the local \<open>pluginPath\<close> of \<open>processPlugin\<close>.\<close>

definition pluginPath :: "('j, 'u) env \<Rightarrow> ('j, 'u) bridge \<Rightarrow> string \<Rightarrow> string" where
  "pluginPath E s pluginName =
     (let pluginExtension = getLibraryExtension E;
          pluginsDir = resolvePluginsDir E s
      in path_join E [pluginsDir, pluginName @ ''_plugin'' @ pluginExtension])"

definition processPlugin ::
  "('j, 'u) env \<Rightarrow> string \<Rightarrow> ('j, 'u) bridge \<Rightarrow> (error + bool) \<times> ('j, 'u) bridge" where
  "processPlugin E pluginName s =
     (if \<not> isInitialized s then (Inl not_initialized, s)
      else (case call_native E (logos_core_process_plugin (pluginPath E s pluginName)) s of
              (Inl e, s1) \<Rightarrow> (Inl e, s1)
            | (Inr result, s1) \<Rightarrow> (Inr (truthy result), s1)))"

definition loadPlugin ::
  "('j, 'u) env \<Rightarrow> string \<Rightarrow> ('j, 'u) bridge \<Rightarrow> (error + bool) \<times> ('j, 'u) bridge" where
  "loadPlugin E pluginName s =
     (if \<not> isInitialized s then (Inl not_initialized, s)
      else (case call_native E (logos_core_load_plugin pluginName) s of
              (Inl e, s1) \<Rightarrow> (Inl e, s1)
            | (Inr result, s1) \<Rightarrow> (Inr (result = RInt 1), s1)))"

definition unloadPlugin ::
  "('j, 'u) env \<Rightarrow> string \<Rightarrow> ('j, 'u) bridge \<Rightarrow> (error + bool) \<times> ('j, 'u) bridge" where
  "unloadPlugin E pluginName s =
     (if \<not> isInitialized s then (Inl not_initialized, s)
      else (case call_native E (logos_core_unload_plugin pluginName) s of
              (Inl e, s1) \<Rightarrow> (Inl e, s1)
            | (Inr result, s1) \<Rightarrow> (Inr (result = RInt 1), s1)))"

definition processAndLoadPlugin ::
  "('j, 'u) env \<Rightarrow> string \<Rightarrow> ('j, 'u) bridge \<Rightarrow> (error + bool) \<times> ('j, 'u) bridge" where
  "processAndLoadPlugin E pluginName s =
     (case processPlugin E pluginName s of
        (Inl e, s1) \<Rightarrow> (Inl e, s1)
      | (Inr processed, s1) \<Rightarrow>
          (if \<not> processed then (Inl (Error (''Failed to process plugin: '' @ pluginName)), s1)
           else (case loadPlugin E pluginName s1 of
                   (Inl e, s2) \<Rightarrow> (Inl e, s2)
                 | (Inr loaded, s2) \<Rightarrow>
                     (if \<not> loaded then (Inl (Error (''Failed to load plugin: '' @ pluginName)), s2)
                      else (Inr True, s2)))))"

text \<open>
  \<open>processAndLoadPlugins\<close> collects its entries \<open>{processed, loaded?, error?}\<close> in
  \<open>results\<close>, an ordinary object created by \<open>{}\<close>, whose prototype is
  \<open>Object.prototype\<close>. Such an object is not a map from names to entries, and it is
  modelled as the language has it:
  \<^item> \<open>results[k] = v\<close> with \<open>k\<close> other than \<open>__proto__\<close> creates or replaces the own
    property \<open>k\<close> (every property that \<open>k\<close> could inherit is a writable data
    property);
  \<^item> \<open>results['__proto__'] = v\<close> runs the setter of \<open>Object.prototype\<close>: the object
    \<open>v\<close> becomes the prototype of \<open>results\<close> and no own property is created;
  \<^item> \<open>results[k]\<close> reads the own property \<open>k\<close> if there is one; for \<open>__proto__\<close> it
    reads the prototype; otherwise it reads along the prototype chain: a property of
    the entry that was made the prototype (\<open>processed\<close>, and \<open>loaded\<close> or \<open>error\<close>
    when set, which are booleans and texts), then a property of \<open>Object.prototype\<close>
    (a function), and \<open>undefined\<close> when there is none.
  The state of \<open>results\<close> is therefore its own properties and the entry that has
  been made its prototype, if any. What a read returns is an entry, some other value
  that is neither \<open>undefined\<close> nor \<open>null\<close> and has no property \<open>processed\<close>, or
  \<open>undefined\<close>.
\<close>

record batchEntry =
  entry_processed :: bool
  entry_loaded :: "bool option"
  entry_error :: "string option"




datatype lookup = Entry batchEntry | Other | Undefined

definition Object_prototype_keys :: "string list" where
  "Object_prototype_keys =
     [''constructor'', ''__defineGetter__'', ''__defineSetter__'', ''hasOwnProperty'',
      ''__lookupGetter__'', ''__lookupSetter__'', ''isPrototypeOf'', ''propertyIsEnumerable'',
      ''toString'', ''valueOf'', ''toLocaleString'']"

definition inherited :: "batchEntry option \<Rightarrow> string \<Rightarrow> lookup" where
  "inherited p k =
     (case p of
        None \<Rightarrow> (if k \<in> set Object_prototype_keys then Other else Undefined)
      | Some e \<Rightarrow>
          (if k = ''processed'' then Other
           else if k = ''loaded'' \<and> entry_loaded e \<noteq> None then Other
           else if k = ''error'' \<and> entry_error e \<noteq> None then Other
           else if k \<in> set Object_prototype_keys then Other
           else Undefined))"





subsection \<open>Asynchronous calls and event listeners\<close>

definition generateCallbackId ::
  "('j, 'u) env \<Rightarrow> ('j, 'u) bridge \<Rightarrow> string \<times> ('j, 'u) bridge" where
  "generateCallbackId E s =
     (''callback_'' @ Date_now E (readings s) @ ''_'' @ Math_random E (readings s),
      s\<lparr>readings := Suc (readings s)\<rparr>)"

definition createFFICallback ::
  "('j, 'u) userCallback \<Rightarrow> string \<Rightarrow> ('j, 'u) ffiCallback" where
  "createFFICallback userCallback callbackId = FFICallback userCallback callbackId"

definition callPluginMethodAsync ::
  "('j, 'u) env \<Rightarrow> string \<Rightarrow> string \<Rightarrow> string \<Rightarrow> ('j, 'u) userCallback \<Rightarrow>
   ('j, 'u) bridge \<Rightarrow> (error + string) \<times> ('j, 'u) bridge" where
  "callPluginMethodAsync E pluginName methodName params callback s =
     (if \<not> isInitialized s then (Inl not_initialized, s)
      else (case generateCallbackId E s of
              (callbackId, s1) \<Rightarrow>
                (let ffiCallback = createFFICallback callback callbackId;
                     s2 = s1\<lparr>callbacks := (callbacks s1)(callbackId \<mapsto>
                            \<lparr>pc_callback = callback, pc_ffiCallback = ffiCallback\<rparr>)\<rparr>
                 in case call_native E
                           (logos_core_call_plugin_method_async pluginName methodName params
                              ffiCallback 0) s2 of
                      (Inl e, s3) \<Rightarrow> (Inl e, s3)
                    | (Inr _, s3) \<Rightarrow> (Inr callbackId, s3))))"

definition registerEventListener ::
  "('j, 'u) env \<Rightarrow> string \<Rightarrow> string \<Rightarrow> ('j, 'u) userCallback \<Rightarrow>
   ('j, 'u) bridge \<Rightarrow> (error + string) \<times> ('j, 'u) bridge" where
  "registerEventListener E pluginName eventName callback s =
     (if \<not> isInitialized s then (Inl not_initialized, s)
      else (case generateCallbackId E s of
              (listenerId, s1) \<Rightarrow>
                (let ffiCallback = createFFICallback callback listenerId;
                     s2 = s1\<lparr>eventListeners := (eventListeners s1)(listenerId \<mapsto>
                            \<lparr>el_pluginName = pluginName, el_eventName = eventName,
                             el_callback = callback, el_ffiCallback = ffiCallback\<rparr>)\<rparr>
                 in case call_native E
                           (logos_core_register_event_listener pluginName eventName
                              ffiCallback 0) s2 of
                      (Inl e, s3) \<Rightarrow> (Inl e, s3)
                    | (Inr _, s3) \<Rightarrow> (Inr listenerId, s3))))"

text \<open>
  The function wrapped by \<open>ffi.Callback\<close> in \<open>_createFFICallback\<close>, which the native
  side calls with \<open>(result, message, userData)\<close>. \<open>deliver_try\<close> is the body of its
  \<open>try\<close> block: the message is parsed (\<open>parseMessage\<close>: the inner \<open>try\<close> falls back
  to the raw message), the third argument is built (\<open>metaOf\<close>, reading the clock), and
  the user callback runs; what the user callback throws leaves the block. \<open>deliver\<close> is the whole function: its \<open>catch\<close> prints the error
  with \<open>console.error\<close> and the function returns.
\<close>

definition parseMessage :: "('j, 'u) env \<Rightarrow> string option \<Rightarrow> 'j parsedMessage" where
  "parseMessage E msg = (case JSON_parse E msg of Some j \<Rightarrow> Parsed j | None \<Rightarrow> Raw msg)"

definition metaOf ::
  "('j, 'u) env \<Rightarrow> ('j, 'u) ffiCallback \<Rightarrow> string option \<Rightarrow> ('j, 'u) bridge \<Rightarrow> meta" where
  "metaOf E f msg s =
     \<lparr>meta_callbackId = cb_callbackId f,
      meta_timestamp = toISOString E (readings s),
      meta_rawMessage = msg\<rparr>"

definition deliver_try ::
  "('j, 'u) env \<Rightarrow> ('j, 'u) ffiCallback \<Rightarrow> int \<Rightarrow> string option \<Rightarrow> ('j, 'u) bridge \<Rightarrow>
   (error + unit) \<times> ('j, 'u) bridge" where
  "deliver_try E f result msg s =
     (let success = (result = 1);
          parsedMessage = parseMessage E msg;
          m = metaOf E f msg s;
          s1 = s\<lparr>readings := Suc (readings s)\<rparr>
      in case cb_userCallback f success parsedMessage m (user s1) of
           (None, u) \<Rightarrow> (Inr (), s1\<lparr>user := u\<rparr>)
         | (Some e, u) \<Rightarrow> (Inl e, s1\<lparr>user := u\<rparr>))"

definition deliver ::
  "('j, 'u) env \<Rightarrow> ('j, 'u) ffiCallback \<Rightarrow> int \<Rightarrow> string option \<Rightarrow> ('j, 'u) bridge \<Rightarrow>
   (error + unit) \<times> ('j, 'u) bridge" where
  "deliver E f result msg s =
     (case deliver_try E f result msg s of
        (Inr _, s1) \<Rightarrow> (Inr (), s1)
      | (Inl e, s1) \<Rightarrow>
          (Inr (), s1\<lparr>console := console s1 @
                         [(''Error in callback '' @ cb_callbackId f @ '':'', e)]\<rparr>))"

subsection \<open>The event pump, exec and cleanup\<close>

text \<open>
  \<open>startEventProcessing(interval = 100)\<close> stores the timer; \<open>interval_tick\<close> is the
  function the timer runs at each tick, and \<open>timer_fires\<close> is one firing of the timer
  of this bridge, which happens only while the timer is set.
\<close>

definition startEventProcessing ::
  "('j, 'u) env \<Rightarrow> nat option \<Rightarrow> ('j, 'u) bridge \<Rightarrow> (error + bool) \<times> ('j, 'u) bridge" where
  "startEventProcessing E interval s =
     (case eventProcessingInterval s of
        Some t \<Rightarrow> (Inl (Error ''Event processing is already running''), s)
      | None \<Rightarrow>
          (Inr True, s\<lparr>eventProcessingInterval :=
                         Some (case interval of None \<Rightarrow> 100 | Some i \<Rightarrow> i)\<rparr>))"

definition interval_tick ::
  "('j, 'u) env \<Rightarrow> ('j, 'u) bridge \<Rightarrow> (error + unit) \<times> ('j, 'u) bridge" where
  "interval_tick E s =
     (case LogosCore s of
        None \<Rightarrow> (Inr (), s)
      | Some lib \<Rightarrow>
          (case call_native E logos_core_process_events s of
             (Inl e, s1) \<Rightarrow> (Inl e, s1)
           | (Inr _, s1) \<Rightarrow> (Inr (), s1)))"

definition timer_fires ::
  "('j, 'u) env \<Rightarrow> ('j, 'u) bridge \<Rightarrow> (error + unit) \<times> ('j, 'u) bridge" where
  "timer_fires E s =
     (case eventProcessingInterval s of
        None \<Rightarrow> (Inr (), s)
      | Some t \<Rightarrow> interval_tick E s)"

definition stopEventProcessing :: "('j, 'u) bridge \<Rightarrow> bool \<times> ('j, 'u) bridge" where
  "stopEventProcessing s =
     (case eventProcessingInterval s of
        Some t \<Rightarrow> (True, s\<lparr>eventProcessingInterval := None\<rparr>)
      | None \<Rightarrow> (False, s))"

definition exec :: "('j, 'u) env \<Rightarrow> ('j, 'u) bridge \<Rightarrow> (error + nret) \<times> ('j, 'u) bridge" where
  "exec E s =
     (if \<not> isInitialized s then (Inl not_initialized, s)
      else call_native E logos_core_exec s)"

definition cleanup ::
  "('j, 'u) env \<Rightarrow> ('j, 'u) bridge \<Rightarrow> (error + unit) \<times> ('j, 'u) bridge" where
  "cleanup E s =
     (let s1 = snd (stopEventProcessing s)
      in case (case LogosCore s1 of
                 None \<Rightarrow> (Inr RVoid, s1)
               | Some lib \<Rightarrow> call_native E logos_core_cleanup s1) of
           (Inl e, s2) \<Rightarrow> (Inl e, s2)
         | (Inr _, s2) \<Rightarrow>
             (Inr (), s2\<lparr>callbacks := Map.empty, eventListeners := Map.empty,
                         isInitialized := False, isStarted := False\<rparr>))"

subsection \<open>Argument encoding of the reflective layer\<close>

text \<open>
  A JavaScript value as \<open>_inferTypeAndValue\<close> tells values apart: \<open>undefined\<close>,
  \<open>null\<close>, a boolean, a number, a string, and the rest (functions, and objects,
  arrays, symbols, bigints under \<open>JOther\<close>). Numbers are the platform's doubles and
  stay abstract (\<open>'n\<close>): \<open>Number.isInteger\<close>, \<open>String\<close> and \<open>JSON.stringify\<close> are
  the platform's and are taken as they are. \<open>JSON.stringify\<close> throws, or returns a
  text, or returns \<open>undefined\<close> (\<open>Inr None\<close>, for a function or a symbol);
  \<open>String\<close> throws or returns a text.
\<close>

datatype ('n, 'f, 'o) jsval =
    JUndefined | JNull | JBoolean bool | JNumber 'n | JString string | JFunction 'f | JOther 'o

record ('n, 'f, 'o) builtins =
  Number_isInteger :: "'n \<Rightarrow> bool"
  String_of_number :: "'n \<Rightarrow> string"
  JSON_stringify :: "('n, 'f, 'o) jsval \<Rightarrow> error + string option"
  String_of :: "('n, 'f, 'o) jsval \<Rightarrow> error + string"

record inferred =
  inferred_type :: string
  inferred_value :: "string option"

definition fallback :: "('n, 'f, 'o) builtins \<Rightarrow> ('n, 'f, 'o) jsval \<Rightarrow> error + inferred" where
  "fallback B v =
     (case JSON_stringify B v of
        Inr t \<Rightarrow> Inr \<lparr>inferred_type = ''string'', inferred_value = t\<rparr>
      | Inl _ \<Rightarrow>
          (case String_of B v of
             Inr t \<Rightarrow> Inr \<lparr>inferred_type = ''string'', inferred_value = Some t\<rparr>
           | Inl e \<Rightarrow> Inl e))"

fun inferTypeAndValue ::
  "('n, 'f, 'o) builtins \<Rightarrow> ('n, 'f, 'o) jsval \<Rightarrow> error + inferred" where
  "inferTypeAndValue B JNull = Inr \<lparr>inferred_type = ''string'', inferred_value = Some []\<rparr>"
| "inferTypeAndValue B JUndefined =
     Inr \<lparr>inferred_type = ''string'', inferred_value = Some []\<rparr>"
| "inferTypeAndValue B (JBoolean b) =
     Inr \<lparr>inferred_type = ''bool'', inferred_value = Some (if b then ''true'' else ''false'')\<rparr>"
| "inferTypeAndValue B (JNumber n) =
     (if Number_isInteger B n
      then Inr \<lparr>inferred_type = ''int'', inferred_value = Some (String_of_number B n)\<rparr>
      else Inr \<lparr>inferred_type = ''double'', inferred_value = Some (String_of_number B n)\<rparr>)"
| "inferTypeAndValue B (JString t) =
     Inr \<lparr>inferred_type = ''string'', inferred_value = Some t\<rparr>"
| "inferTypeAndValue B (JFunction f) = fallback B (JFunction f)"
| "inferTypeAndValue B (JOther v) = fallback B (JOther v)"

record param =
  param_name :: string
  param_value :: "string option"
  param_type :: string

definition digit :: "nat \<Rightarrow> char" where
  "digit d = ''0123456789'' ! d"

fun decimal :: "nat \<Rightarrow> string" where
  "decimal n = (if n < 10 then [digit n] else decimal (n div 10) @ [digit (n mod 10)])"

declare decimal.simps [simp del]

text \<open>
  \<open>decimal\<close> is the text of an index in a template literal; \<open>digit\<close> is only
  applied below ten.
\<close>

text \<open>
  \<open>Array.from(args).map(toParam)\<close>: the arguments are encoded from left to right,
  the index counting from \<open>0\<close>; an error of \<open>_inferTypeAndValue\<close> ends the map.
\<close>

fun toParams ::
  "('n, 'f, 'o) builtins \<Rightarrow> nat \<Rightarrow> ('n, 'f, 'o) jsval list \<Rightarrow> error + param list" where
  "toParams B index [] = Inr []"
| "toParams B index (arg # rest) =
     (case inferTypeAndValue B arg of
        Inl e \<Rightarrow> Inl e
      | Inr i \<Rightarrow>
          (case toParams B (Suc index) rest of
             Inl e \<Rightarrow> Inl e
           | Inr ps \<Rightarrow>
               Inr (\<lparr>param_name = ''arg'' @ decimal index, param_value = inferred_value i,
                     param_type = inferred_type i\<rparr> # ps)))"

text \<open>
  \<open>makeParamsJson\<close>; the serialisation of the encoded list to text is the
  platform's \<open>JSON.stringify\<close>, here the parameter \<open>stringify_params\<close>.
\<close>

definition makeParamsJson ::
  "('n, 'f, 'o) builtins \<Rightarrow> (param list \<Rightarrow> string) \<Rightarrow> ('n, 'f, 'o) jsval list \<Rightarrow>
   error + string" where
  "makeParamsJson B stringify_params args =
     (case toParams B 0 args of
        Inl e \<Rightarrow> Inl e
      | Inr ps \<Rightarrow> Inr (stringify_params ps))"

subsection \<open>The reflective plugin proxy\<close>

text \<open>
  \<open>decapitalize\<close> is \<open>s.length ? s.charAt(0).toLowerCase() + s.slice(1) : s\<close>. The
  three string methods are the platform's and are taken as they are, as functions on
  texts: \<open>charAt0\<close> is \<open>s.charAt(0)\<close>, \<open>slice1\<close> is \<open>s.slice(1)\<close> and \<open>toLowerCase\<close>
  is \<open>String.prototype.toLowerCase\<close>, which follows Unicode. Nothing is assumed
  about how a text is laid out in characters. The tests of the proxy on the prefix
  \<open>on\<close> only look at two ASCII characters and at whether anything follows them.
\<close>

record stringOps =
  charAt0 :: "string \<Rightarrow> string"
  slice1 :: "string \<Rightarrow> string"
  toLowerCase :: "string \<Rightarrow> string"

definition decapitalize :: "stringOps \<Rightarrow> string \<Rightarrow> string" where
  "decapitalize S t = (if t = [] then t else toLowerCase S (charAt0 S t) @ slice1 S t)"

text \<open>
  A property key is a string or a symbol. What the \<open>get\<close> trap of the plugin proxy
  returns is one of: the plugin name, the \<open>toString\<close> function, \<open>undefined\<close>, the
  subscription function of \<open>on<Event>\<close> (a closure over the plugin name, the
  property and the event name), or the method function (a closure over the plugin
  name and the property).
\<close>

datatype property = PString string | PSymbol string

datatype proxyValue =
    VPluginName string
  | VToString string
  | VUndefined
  | VSubscribe string string string
  | VMethod string string

definition proxy_get :: "stringOps \<Rightarrow> string \<Rightarrow> property \<Rightarrow> proxyValue" where
  "proxy_get S pluginName property =
     (case property of
        PSymbol y \<Rightarrow> VUndefined
      | PString p \<Rightarrow>
          (if p = ''pluginName'' then VPluginName pluginName
           else if p = ''toString'' then VToString pluginName
           else if p = ''then'' then VUndefined
           else if take 2 p = ''on'' \<and> length p > 2
                then VSubscribe pluginName p (decapitalize S (drop 2 p))
           else VMethod pluginName p))"

text \<open>
  What a listener registered through \<open>on<Event>\<close> is called with: the message, or
  the object \<open>{error: true, message}\<close>.
\<close>

datatype 'j eventArg = Payload "'j parsedMessage" | ErrorObject "'j parsedMessage"

type_synonym ('j, 'u) listener = "'j eventArg \<Rightarrow> 'u \<Rightarrow> error option \<times> 'u"

definition listener_wrapper :: "('j, 'u) listener \<Rightarrow> ('j, 'u) userCallback" where
  "listener_wrapper callback =
     (\<lambda>success msg m. if success then callback (Payload msg) else callback (ErrorObject msg))"

definition subscribe ::
  "('j, 'u) env \<Rightarrow> string \<Rightarrow> string \<Rightarrow> string \<Rightarrow> ('n, ('j, 'u) listener, 'o) jsval \<Rightarrow>
   ('j, 'u) bridge \<Rightarrow> (error + string) \<times> ('j, 'u) bridge" where
  "subscribe E pluginName property eventName callback s =
     (case callback of
        JFunction f \<Rightarrow> registerEventListener E pluginName eventName (listener_wrapper f) s
      | _ \<Rightarrow> (Inl (Error (''Callback must be a function for '' @ pluginName @ ''.'' @ property)),
              s))"

text \<open>
  The method function returns a promise. The promise is the caller's: \<open>resolve\<close> and
  \<open>reject\<close> are its two settling functions, acting on the caller's state. A promise
  is rejected with a message of the native side or with a caught error.
\<close>

datatype 'j rejection = RejectedMessage "'j parsedMessage" | RejectedError error

definition method_callback ::
  "('j parsedMessage \<Rightarrow> 'u \<Rightarrow> 'u) \<Rightarrow> ('j rejection \<Rightarrow> 'u \<Rightarrow> 'u) \<Rightarrow> ('j, 'u) userCallback" where
  "method_callback resolve reject =
     (\<lambda>success msg m u.
        if success then (None, resolve msg u) else (None, reject (RejectedMessage msg) u))"

definition invoke_method ::
  "('j, 'u) env \<Rightarrow> ('n, 'f, 'o) builtins \<Rightarrow> (param list \<Rightarrow> string) \<Rightarrow> string \<Rightarrow> string \<Rightarrow>
   ('n, 'f, 'o) jsval list \<Rightarrow> ('j parsedMessage \<Rightarrow> 'u \<Rightarrow> 'u) \<Rightarrow> ('j rejection \<Rightarrow> 'u \<Rightarrow> 'u) \<Rightarrow>
   ('j, 'u) bridge \<Rightarrow> ('j, 'u) bridge" where
  "invoke_method E B stringify_params pluginName property args resolve reject s =
     (case makeParamsJson B stringify_params args of
        Inl err \<Rightarrow> s\<lparr>user := reject (RejectedError err) (user s)\<rparr>
      | Inr params \<Rightarrow>
          (case callPluginMethodAsync E pluginName property params
                  (method_callback resolve reject) s of
             (Inl err, s1) \<Rightarrow> s1\<lparr>user := reject (RejectedError err) (user s1)\<rparr>
           | (Inr _, s1) \<Rightarrow> s1))"

text \<open>
  Calling a value obtained from the proxy with a list of arguments: the \<open>toString\<close>
  function returns its text, the subscription function takes its first argument
  (\<open>undefined\<close> when there is none) as the callback, the method function returns a
  promise, and a value that is not a function cannot be called.
\<close>

datatype callResult = CText string | CSubscription string | CPromise

definition proxy_call ::
  "('j, 'u) env \<Rightarrow> ('n, ('j, 'u) listener, 'o) builtins \<Rightarrow> (param list \<Rightarrow> string) \<Rightarrow>
   proxyValue \<Rightarrow> ('n, ('j, 'u) listener, 'o) jsval list \<Rightarrow>
   ('j parsedMessage \<Rightarrow> 'u \<Rightarrow> 'u) \<Rightarrow> ('j rejection \<Rightarrow> 'u \<Rightarrow> 'u) \<Rightarrow>
   ('j, 'u) bridge \<Rightarrow> (error + callResult) \<times> ('j, 'u) bridge" where
  "proxy_call E B stringify_params v args resolve reject s =
     (case v of
        VPluginName n \<Rightarrow> (Inl (TypeError ''not a function''), s)
      | VUndefined \<Rightarrow> (Inl (TypeError ''not a function''), s)
      | VToString n \<Rightarrow> (Inr (CText (''[LogosPluginProxy '' @ n @ '']'')), s)
      | VSubscribe n p ev \<Rightarrow>
          (case subscribe E n p ev (case args of [] \<Rightarrow> JUndefined | a # _ \<Rightarrow> a) s of
             (Inl e, s1) \<Rightarrow> (Inl e, s1)
           | (Inr listenerId, s1) \<Rightarrow> (Inr (CSubscription listenerId), s1))
      | VMethod n p \<Rightarrow>
          (Inr CPromise, invoke_method E B stringify_params n p args resolve reject s))"

text \<open>
  How the platform resolves a promise with the proxy, or awaits the proxy: it reads
  the property \<open>then\<close>, and only when that is a function it calls it with the two
  resolving functions (\<open>thenArgs\<close>); otherwise the proxy itself is the result and
  nothing more runs.
\<close>

fun callable :: "proxyValue \<Rightarrow> bool" where
  "callable (VToString n) = True"
| "callable (VSubscribe n p ev) = True"
| "callable (VMethod n p) = True"
| "callable v = False"

definition resolve_with_proxy ::
  "('j, 'u) env \<Rightarrow> ('n, ('j, 'u) listener, 'o) builtins \<Rightarrow> stringOps \<Rightarrow>
   (param list \<Rightarrow> string) \<Rightarrow>
   string \<Rightarrow> ('n, ('j, 'u) listener, 'o) jsval list \<Rightarrow>
   ('j parsedMessage \<Rightarrow> 'u \<Rightarrow> 'u) \<Rightarrow> ('j rejection \<Rightarrow> 'u \<Rightarrow> 'u) \<Rightarrow>
   ('j, 'u) bridge \<Rightarrow> ('j, 'u) bridge" where
  "resolve_with_proxy E B S stringify_params pluginName thenArgs resolve reject s =
     (let thenValue = proxy_get S pluginName (PString ''then'')
      in if callable thenValue
         then snd (proxy_call E B stringify_params thenValue thenArgs resolve reject s)
         else s)"

subsection \<open>A concrete environment\<close>

text \<open>
  One environment on which the definitions are run: a Linux host where every path
  exists, paths are joined with a slash, the library loads, every native \<open>int\<close>
  answer is \<open>1\<close>, processing succeeds for every plugin file but that of plugin \<open>b\<close>,
  and both plugin queries return the address \<open>1000\<close> of a two-entry array. A message
  parses as JSON when it starts with a brace.
\<close>

definition demo_memory :: memory where
  "demo_memory =
     \<lparr>readPointer = (\<lambda>a. if a = 1000 then 2000 else if a = 1008 then 3000 else 0),
      readCString = (\<lambda>a. if a = 2000 then ''chat'' else if a = 3000 then ''wallet'' else [])\<rparr>"

fun join_path :: "string list \<Rightarrow> string" where
  "join_path [] = []"
| "join_path [p] = p"
| "join_path (p # q # ps) = p @ ''/'' @ join_path (q # ps)"

definition demo_env :: "(string, nat) env" where
  "demo_env =
     \<lparr>platform = ''linux'', dirname = ''/sdk'', cwd = ''/app'',
      existsSync = (\<lambda>p. True),
      path_resolve = join_path,
      path_join = join_path,
      ffi_Library = (\<lambda>p. None),
      native_int = (\<lambda>h c. 1),
      native_string = (\<lambda>h c. case c of
          logos_core_process_plugin p \<Rightarrow>
            (if p = ''/app/plugins/b_plugin.so'' then None else Some ''ok'')
        | _ \<Rightarrow> None),
      native_pointer = (\<lambda>h c. 1000),
      heap = (\<lambda>h. demo_memory),
      sizeof_pointer = 8,
      Date_now = (\<lambda>k. ''1700000000000''),
      Math_random = (\<lambda>k. if k = 0 then ''k3j9x0q2m'' else ''p7w1z5c8d''),
      toISOString = (\<lambda>k. ''2024-01-01T00:00:00.000Z''),
      JSON_parse = (\<lambda>m. case m of
          Some (c # cs) \<Rightarrow> (if c = CHR ''{'' then Some (c # cs) else None)
        | _ \<Rightarrow> None)\<rparr>"

text \<open>The bridge after a successful \<open>init()\<close>; the caller's state is a counter.\<close>

definition demo_ready :: "(string, nat) bridge" where
  "demo_ready = snd (init demo_env (fresh None None 0))"

text \<open>A callback that counts its invocations, and one that throws.\<close>

definition count_calls :: "(string, nat) userCallback" where
  "count_calls = (\<lambda>success msg m u. (None, Suc u))"

definition throwing :: "(string, nat) userCallback" where
  "throwing = (\<lambda>success msg m u. (Some (Error ''boom''), u))"

text \<open>
  A call issued on the initialised bridge, the dispatcher the native side receives for
  it, and the state after one and after two deliveries to that dispatcher.
\<close>

definition demo_callbackId :: string where
  "demo_callbackId = ''callback_1700000000000_k3j9x0q2m''"

definition demo_called :: "(error + string) \<times> (string, nat) bridge" where
  "demo_called = callPluginMethodAsync demo_env ''chat'' ''send'' ''[]'' count_calls demo_ready"

definition demo_dispatcher :: "(string, nat) ffiCallback" where
  "demo_dispatcher = createFFICallback count_calls demo_callbackId"

definition demo_delivered_once :: "(string, nat) bridge" where
  "demo_delivered_once = snd (deliver demo_env demo_dispatcher 1 (Some ''done'') (snd demo_called))"

definition demo_delivered_twice :: "(string, nat) bridge" where
  "demo_delivered_twice = snd (deliver demo_env demo_dispatcher 1 (Some ''done'') demo_delivered_once)"

text \<open>
  A second dispatcher, whose callback throws; builtins where a number is given by its
  decimal text (integral when it has no point), an object by its JSON text, and the
  object \<open>circular\<close> cannot be serialised, while for a function \<open>JSON.stringify\<close>
  returns \<open>undefined\<close> without throwing, as the platform does; and a listener that
  adds \<open>1\<close> for a parsed payload, \<open>10\<close> for a raw payload, \<open>100\<close> for an error object
  with a parsed message and \<open>1000\<close> for an error object with a raw message.
\<close>

definition demo_thrower :: "(string, nat) ffiCallback" where
  "demo_thrower = createFFICallback throwing ''callback_1700000000000_p7w1z5c8d''"

definition demo_builtins :: "(string, 'f, string) builtins" where
  "demo_builtins =
     \<lparr>Number_isInteger = (\<lambda>t. CHR ''.'' \<notin> set t),
      String_of_number = (\<lambda>t. t),
      JSON_stringify = (\<lambda>v. case v of
          JOther t \<Rightarrow> (if t = ''circular'' then Inl (TypeError ''Converting circular structure to JSON'')
                      else Inr (Some t))
        | _ \<Rightarrow> Inr None),
      String_of = (\<lambda>v. Inr ''[object Object]'')\<rparr>"

definition demo_stringify :: "param list \<Rightarrow> string" where
  "demo_stringify ps = concat (map (\<lambda>p. param_name p @ '':'' @ param_type p @ '';'') ps)"

definition demo_listener :: "(string, nat) listener" where
  "demo_listener =
     (\<lambda>a u. case a of
        Payload (Parsed j) \<Rightarrow> (None, u + 1)
      | Payload (Raw r) \<Rightarrow> (None, u + 10)
      | ErrorObject (Parsed j) \<Rightarrow> (None, u + 100)
      | ErrorObject (Raw r) \<Rightarrow> (None, u + 1000))"

text \<open>
  String methods for texts of ASCII characters: the first character, the rest, and
  lower case letter by letter.
\<close>

definition demo_lower :: "char \<Rightarrow> char" where
  "demo_lower c =
     (case map_of (zip ''ABCDEFGHIJKLMNOPQRSTUVWXYZ'' ''abcdefghijklmnopqrstuvwxyz'') c of
        Some l \<Rightarrow> l
      | None \<Rightarrow> c)"

definition demo_strings :: stringOps where
  "demo_strings = \<lparr>charAt0 = take 1, slice1 = drop 1, toLowerCase = map demo_lower\<rparr>"

text \<open>
  A callback whose effect tells apart what it was called with: it adds \<open>1\<close> for a
  success with a parsed message, \<open>10\<close> for a success with a raw message, \<open>100\<close> for a
  failure with a parsed message and \<open>1000\<close> for a failure with a raw message. A call
  issued with it on the initialised bridge, and the dispatcher of that call.
\<close>

definition demo_recorder :: "(string, nat) userCallback" where
  "demo_recorder =
     (\<lambda>success msg m u. case msg of
        Parsed j \<Rightarrow> (None, if success then u + 1 else u + 100)
      | Raw r \<Rightarrow> (None, if success then u + 10 else u + 1000))"

definition demo_recorded :: "(error + string) \<times> (string, nat) bridge" where
  "demo_recorded =
     callPluginMethodAsync demo_env ''chat'' ''send'' ''[]'' demo_recorder demo_ready"

definition demo_recording :: "(string, nat) ffiCallback" where
  "demo_recording = createFFICallback demo_recorder demo_callbackId"

text \<open>
  The initialised bridge after \<open>cleanup()\<close>, a pump started on it afterwards, and
  the environment changed so that every native \<open>int\<close> answer is \<open>0\<close>.
\<close>

definition demo_cleaned :: "(string, nat) bridge" where
  "demo_cleaned = snd (cleanup demo_env demo_ready)"

definition demo_restarted :: "(error + bool) \<times> (string, nat) bridge" where
  "demo_restarted = startEventProcessing demo_env None demo_cleaned"

definition demo_env_no_load :: "(string, nat) env" where
  "demo_env_no_load = demo_env\<lparr>native_int := (\<lambda>h c. 0)\<rparr>"

subsection \<open>Notions for the batch property\<close>







section \<open>Properties\<close>

subsection \<open>Native string arrays\<close>

lemma scanCStringArray_sentinel:
  assumes "readPointer M (a + n * sz) = 0"
    and "\<forall>i. k \<le> i \<and> i < n \<longrightarrow> readPointer M (a + i * sz) \<noteq> 0"
    and "k \<le> n"
  shows "scanCStringArray M sz a k acc =
         Some (acc @ map (\<lambda>i. readCString M (readPointer M (a + i * sz))) [k..<n])"
  using assms
proof (induction "n - k" arbitrary: k acc)
  case 0
  then have "k = n" by simp
  with 0 show ?case by (simp add: scanCStringArray.simps)
next
  case (Suc d)
  then have lt: "k < n" and nz: "readPointer M (a + k * sz) \<noteq> 0" by auto
  have d: "d = n - Suc k" using Suc.hyps(2) by simp
  have step: "scanCStringArray M sz a (Suc k) (acc @ [readCString M (readPointer M (a + k * sz))]) =
        Some ((acc @ [readCString M (readPointer M (a + k * sz))]) @
              map (\<lambda>i. readCString M (readPointer M (a + i * sz))) [Suc k..<n])"
    using Suc.hyps(1)[OF d Suc.prems(1)] Suc.prems(2) lt by auto
  have "scanCStringArray M sz a k acc =
        scanCStringArray M sz a (Suc k) (acc @ [readCString M (readPointer M (a + k * sz))])"
    using nz by (subst scanCStringArray.simps) simp
  with step show ?case using lt by (simp add: upt_conv_Cons)
qed

text \<open>
  C9. \<open>_convertCStringArrayToJS\<close> returns the empty list for the null pointer. For a
  non-null array whose entry \<open>n\<close> is the first null entry, the loop ends and returns
  exactly the strings read through the entries \<open>0, ..., n - 1\<close>, at the offsets
  \<open>i * sizeof.pointer\<close>, in that order.
\<close>

theorem convertCStringArrayToJS_sentinel:
  "convertCStringArrayToJS M sz 0 = Some [] \<and>
   (cStringArray \<noteq> 0 \<and> readPointer M (cStringArray + n * sz) = 0 \<and>
    (\<forall>i<n. readPointer M (cStringArray + i * sz) \<noteq> 0) \<longrightarrow>
    convertCStringArrayToJS M sz cStringArray =
      Some (map (\<lambda>i. readCString M (readPointer M (cStringArray + i * sz))) [0..<n]))"
  using scanCStringArray_sentinel [of M cStringArray n sz 0 "[]"]
  by (simp add: convertCStringArrayToJS_def)

theorem convertCStringArrayToJS_sentinel_witness:
  "(1000::nat) \<noteq> 0 \<and> readPointer demo_memory (1000 + 2 * 8) = 0 \<and>
   readPointer demo_memory (1000 + 0 * 8) \<noteq> 0 \<and> readPointer demo_memory (1000 + 1 * 8) \<noteq> 0 \<and>
   convertCStringArrayToJS demo_memory 8 1000 = Some [''chat'', ''wallet'']"
proof -
  have h: "(\<forall>i<2::nat. readPointer demo_memory (1000 + i * 8) \<noteq> 0)"
    by (simp add: demo_memory_def less_Suc_eq numeral_2_eq_2)
  have z: "readPointer demo_memory (1000 + 2 * 8) = 0" by (simp add: demo_memory_def)
  have "convertCStringArrayToJS demo_memory 8 1000 =
      Some (map (\<lambda>i. readCString demo_memory (readPointer demo_memory (1000 + i * 8))) [0..<2])"
    using convertCStringArrayToJS_sentinel [of demo_memory 8 1000 2] h z by simp
  also have "\<dots> = Some [''chat'', ''wallet'']"
    by (simp add: demo_memory_def upt_rec numeral_2_eq_2)
  finally show ?thesis using z by (simp add: demo_memory_def)
qed

subsection \<open>The concrete bridge\<close>

lemma init_demo:
  "init demo_env (fresh None None 0) =
    (Inr True,
     \<lparr>options_libPath = None, options_pluginsDir = None,
      LogosCore = Some ''/sdk/lib/liblogos_core.so'',
      isInitialized = True, isStarted = False, eventProcessingInterval = None,
      callbacks = Map.empty, eventListeners = Map.empty,
      trace = [(logos_core_init 0 0, RVoid), (logos_core_set_plugins_dir ''/app/plugins'', RVoid)],
      console = [], user = 0, readings = 0\<rparr>)"
  by (simp add: init_def loadLibrary_def initializeCore_def resolvePluginsDir_def
      call_native_def fresh_def demo_env_def getLibraryExtension_def Let_def)

lemma demo_ready_eq:
  "demo_ready =
     \<lparr>options_libPath = None, options_pluginsDir = None,
      LogosCore = Some ''/sdk/lib/liblogos_core.so'',
      isInitialized = True, isStarted = False, eventProcessingInterval = None,
      callbacks = Map.empty, eventListeners = Map.empty,
      trace = [(logos_core_init 0 0, RVoid), (logos_core_set_plugins_dir ''/app/plugins'', RVoid)],
      console = [], user = 0, readings = 0\<rparr>"
  by (simp add: demo_ready_def init_demo)

lemma demo_called_eq:
  "demo_called =
     (Inr demo_callbackId,
      demo_ready\<lparr>readings := 1,
        callbacks := [demo_callbackId \<mapsto>
           \<lparr>pc_callback = count_calls, pc_ffiCallback = demo_dispatcher\<rparr>],
        trace := trace demo_ready @
          [(logos_core_call_plugin_method_async ''chat'' ''send'' ''[]'' demo_dispatcher 0, RVoid)]\<rparr>)"
  by (simp add: demo_called_def callPluginMethodAsync_def generateCallbackId_def
      call_native_def demo_ready_eq demo_env_def demo_callbackId_def demo_dispatcher_def Let_def)

subsection \<open>Deliveries\<close>

lemma deliver_returns: "fst (deliver E f result msg s) = Inr ()"
  by (simp add: deliver_def split: prod.splits sum.splits)

lemma deliver_user:
  "user (snd (deliver E f result msg s)) =
   snd (cb_userCallback f (result = 1) (parseMessage E msg) (metaOf E f msg s) (user s))"
  by (simp add: deliver_def deliver_try_def Let_def split: prod.splits sum.splits option.splits)

lemma deliver_frame:
  "callbacks (snd (deliver E f result msg s)) = callbacks s \<and>
   eventListeners (snd (deliver E f result msg s)) = eventListeners s \<and>
   trace (snd (deliver E f result msg s)) = trace s \<and>
   isInitialized (snd (deliver E f result msg s)) = isInitialized s"
  by (simp add: deliver_def deliver_try_def Let_def split: prod.splits sum.splits option.splits)

lemma deliver_console:
  "console (snd (deliver E f result msg s)) =
   (case fst (cb_userCallback f (result = 1) (parseMessage E msg) (metaOf E f msg s) (user s)) of
      None \<Rightarrow> console s
    | Some e \<Rightarrow> console s @ [(''Error in callback '' @ cb_callbackId f @ '':'', e)])"
  by (simp add: deliver_def deliver_try_def Let_def split: prod.splits sum.splits option.splits)

lemma cleanup_clears:
  "fst (cleanup E s) = Inr () \<and> callbacks (snd (cleanup E s)) = Map.empty \<and>
   eventListeners (snd (cleanup E s)) = Map.empty \<and> \<not> isInitialized (snd (cleanup E s))"
  by (simp add: cleanup_def stopEventProcessing_def call_native_def Let_def
      split: option.splits prod.splits sum.splits)

text \<open>
  C1, as the code has it. \<open>callPluginMethodAsync\<close> stores the pending call under
  the returned id and hands the native side a dispatcher that closes over the user
  callback and the id only. Every delivery to that dispatcher, in any state (after an
  earlier delivery, after \<open>cleanup\<close>), returns normally and runs the user callback once
  more. The callback is called with: the flag that the result code is \<open>1\<close>; the value
  of \<open>JSON.parse\<close> on the message when it parses, and the raw message when it does
  not; and the id, the time and the raw message. The dispatcher itself never reads or
  removes the pending call: for a callback that acts on the caller's own state, as
  every callback of this embedding does, \<open>callbacks\<close> after the delivery is
  \<open>callbacks\<close> before it. \<open>cleanup\<close> empties \<open>callbacks\<close>.
\<close>

theorem callPluginMethodAsync_every_delivery_fires:
  assumes "callPluginMethodAsync E pluginName methodName params callback s = (Inr callbackId, s1)"
  shows "callbacks s1 callbackId =
           Some \<lparr>pc_callback = callback, pc_ffiCallback = createFFICallback callback callbackId\<rparr> \<and>
         last (trace s1) =
           (logos_core_call_plugin_method_async pluginName methodName params
              (createFFICallback callback callbackId) 0, RVoid) \<and>
         fst (deliver E (createFFICallback callback callbackId) result msg t) = Inr () \<and>
         user (snd (deliver E (createFFICallback callback callbackId) result msg t)) =
           snd (callback (result = 1)
                  (case JSON_parse E msg of Some j \<Rightarrow> Parsed j | None \<Rightarrow> Raw msg)
                  \<lparr>meta_callbackId = callbackId, meta_timestamp = toISOString E (readings t),
                   meta_rawMessage = msg\<rparr>
                  (user t)) \<and>
         callbacks (snd (deliver E (createFFICallback callback callbackId) result msg t)) =
           callbacks t \<and>
         callbacks (snd (cleanup E t)) = Map.empty"
proof -
  from assms have a: "callbacks s1 callbackId =
           Some \<lparr>pc_callback = callback, pc_ffiCallback = createFFICallback callback callbackId\<rparr>"
    and b: "last (trace s1) =
           (logos_core_call_plugin_method_async pluginName methodName params
              (createFFICallback callback callbackId) 0, RVoid)"
    by (auto simp: callPluginMethodAsync_def generateCallbackId_def call_native_def Let_def
        split: if_splits option.splits)
  have c: "cb_userCallback (createFFICallback callback callbackId) = callback"
    by (simp add: createFFICallback_def)
  show ?thesis
    using a b deliver_returns [of E "createFFICallback callback callbackId" result msg t]
      deliver_user [of E "createFFICallback callback callbackId" result msg t]
      deliver_frame [of E "createFFICallback callback callbackId" result msg t]
      cleanup_clears [of E t] c
    by (simp add: parseMessage_def metaOf_def createFFICallback_def)
qed

theorem callPluginMethodAsync_every_delivery_fires_witness:
  "callPluginMethodAsync demo_env ''chat'' ''send'' ''[]'' demo_recorder demo_ready =
     (Inr demo_callbackId, snd demo_recorded) \<and>
   callbacks (snd demo_recorded) demo_callbackId =
     Some \<lparr>pc_callback = demo_recorder, pc_ffiCallback = demo_recording\<rparr> \<and>
   last (trace (snd demo_recorded)) =
     (logos_core_call_plugin_method_async ''chat'' ''send'' ''[]'' demo_recording 0, RVoid) \<and>
   user (snd demo_recorded) = 0 \<and>
   JSON_parse demo_env (Some ''{}'') = Some ''{}'' \<and>
   JSON_parse demo_env (Some ''done'') = None \<and>
   fst (deliver demo_env demo_recording 1 (Some ''{}'') (snd demo_recorded)) = Inr () \<and>
   user (snd (deliver demo_env demo_recording 1 (Some ''{}'') (snd demo_recorded))) = 1 \<and>
   user (snd (deliver demo_env demo_recording 1 (Some ''done'') (snd demo_recorded))) = 10 \<and>
   user (snd (deliver demo_env demo_recording 0 (Some ''{}'') (snd demo_recorded))) = 100 \<and>
   user (snd (deliver demo_env demo_recording 0 (Some ''done'') (snd demo_recorded))) = 1000 \<and>
   user (snd (deliver demo_env demo_recording 1 (Some ''{}'')
               (snd (deliver demo_env demo_recording 1 (Some ''{}'') (snd demo_recorded))))) = 2 \<and>
   user (snd (deliver demo_env demo_recording 1 (Some ''{}'')
               (snd (cleanup demo_env (snd demo_recorded))))) = 1 \<and>
   callbacks (snd (deliver demo_env demo_recording 1 (Some ''{}'') (snd demo_recorded))) =
     callbacks (snd demo_recorded) \<and>
   callbacks (snd (cleanup demo_env (snd demo_recorded))) = Map.empty"
proof -
  have run: "callPluginMethodAsync demo_env ''chat'' ''send'' ''[]'' demo_recorder demo_ready =
     (Inr demo_callbackId, snd demo_recorded)"
    by (simp add: demo_recorded_def callPluginMethodAsync_def generateCallbackId_def
        call_native_def demo_ready_eq demo_env_def demo_callbackId_def Let_def)
  have u0: "user (snd demo_recorded) = 0"
    by (simp add: demo_recorded_def callPluginMethodAsync_def generateCallbackId_def
        call_native_def demo_ready_eq demo_env_def Let_def)
  have u1: "user (snd (cleanup demo_env (snd demo_recorded))) = 0"
    using u0
    by (simp add: cleanup_def stopEventProcessing_def call_native_def Let_def
        split: option.splits prod.splits sum.splits)
  have p: "JSON_parse demo_env (Some ''{}'') = Some ''{}''"
    "JSON_parse demo_env (Some ''done'') = None"
    by (simp_all add: demo_env_def)
  note d = callPluginMethodAsync_every_delivery_fires [OF run]
  show ?thesis
    using run u0 u1 p
      d [of 1 "Some ''{}''" "snd demo_recorded"]
      d [of 1 "Some ''done''" "snd demo_recorded"]
      d [of 0 "Some ''{}''" "snd demo_recorded"]
      d [of 0 "Some ''done''" "snd demo_recorded"]
      d [of 1 "Some ''{}''" "snd (deliver demo_env demo_recording 1 (Some ''{}'') (snd demo_recorded))"]
      d [of 1 "Some ''{}''" "snd (cleanup demo_env (snd demo_recorded))"]
    by (simp add: demo_recording_def demo_recorder_def)
qed

text \<open>
  C1 as stated fails: two deliveries for the id returned by one call run the
  counting callback twice, and the pending call is still stored afterwards.
\<close>

theorem second_delivery_fires_again_counterexample:
  "fst demo_called = Inr demo_callbackId \<and>
   last (trace (snd demo_called)) =
     (logos_core_call_plugin_method_async ''chat'' ''send'' ''[]'' demo_dispatcher 0, RVoid) \<and>
   user (snd demo_called) = 0 \<and> user demo_delivered_once = 1 \<and> user demo_delivered_twice = 2 \<and>
   callbacks demo_delivered_twice demo_callbackId =
     Some \<lparr>pc_callback = count_calls, pc_ffiCallback = demo_dispatcher\<rparr>"
proof -
  have u0: "user (snd demo_called) = 0" by (simp add: demo_called_eq demo_ready_eq)
  have u1: "user demo_delivered_once = 1"
    using u0 by (simp add: demo_delivered_once_def deliver_user demo_dispatcher_def
        createFFICallback_def count_calls_def)
  have u2: "user demo_delivered_twice = 2"
    using u1 by (simp add: demo_delivered_twice_def deliver_user demo_dispatcher_def
        createFFICallback_def count_calls_def)
  have c: "callbacks demo_delivered_twice = callbacks (snd demo_called)"
    by (simp add: demo_delivered_twice_def demo_delivered_once_def deliver_frame)
  show ?thesis using u0 u1 u2 c by (simp add: demo_called_eq)
qed

text \<open>
  C8. The dispatcher always returns normally, whatever the user callback does. When
  the user callback throws \<open>e\<close>, the error leaves the \<open>try\<close> block, is caught, and
  \<open>console.error\<close> prints it with the callback id. A later delivery to any dispatcher
  \<open>g\<close> returns normally too and runs the callback of \<open>g\<close> once more.
\<close>

theorem deliver_contains_user_errors:
  "fst (deliver E f result msg s) = Inr () \<and>
   (fst (cb_userCallback f (result = 1) (parseMessage E msg) (metaOf E f msg s) (user s)) = Some e
      \<longrightarrow> fst (deliver_try E f result msg s) = Inl e \<and>
          console (snd (deliver E f result msg s)) =
            console s @ [(''Error in callback '' @ cb_callbackId f @ '':'', e)]) \<and>
   fst (deliver E g result' msg' (snd (deliver E f result msg s))) = Inr () \<and>
   user (snd (deliver E g result' msg' (snd (deliver E f result msg s)))) =
     snd (cb_userCallback g (result' = 1) (parseMessage E msg')
            (metaOf E g msg' (snd (deliver E f result msg s)))
            (user (snd (deliver E f result msg s))))"
proof -
  have "fst (cb_userCallback f (result = 1) (parseMessage E msg) (metaOf E f msg s) (user s)) = Some e
      \<Longrightarrow> fst (deliver_try E f result msg s) = Inl e"
    by (auto simp: deliver_try_def Let_def split: prod.splits option.splits)
  then show ?thesis
    by (simp add: deliver_returns deliver_user deliver_console)
qed

theorem deliver_contains_user_errors_witness:
  "fst (throwing True (parseMessage demo_env (Some ''done''))
          (metaOf demo_env demo_thrower (Some ''done'') (snd demo_called)) (user (snd demo_called))) =
     Some (Error ''boom'') \<and>
   fst (deliver demo_env demo_thrower 1 (Some ''done'') (snd demo_called)) = Inr () \<and>
   console (snd (deliver demo_env demo_thrower 1 (Some ''done'') (snd demo_called))) =
     [(''Error in callback callback_1700000000000_p7w1z5c8d:'', Error ''boom'')] \<and>
   user (snd (deliver demo_env demo_dispatcher 1 (Some ''done'')
               (snd (deliver demo_env demo_thrower 1 (Some ''done'') (snd demo_called))))) = 1"
proof -
  have t: "fst (throwing True (parseMessage demo_env (Some ''done''))
          (metaOf demo_env demo_thrower (Some ''done'') (snd demo_called)) (user (snd demo_called))) =
     Some (Error ''boom'')"
    by (simp add: throwing_def)
  have c: "cb_userCallback demo_thrower = throwing" "cb_callbackId demo_thrower = ''callback_1700000000000_p7w1z5c8d''"
    "cb_userCallback demo_dispatcher = count_calls"
    by (simp_all add: demo_thrower_def demo_dispatcher_def createFFICallback_def)
  have u: "user (snd demo_called) = 0" "console (snd demo_called) = []"
    by (simp_all add: demo_called_eq demo_ready_eq)
  show ?thesis
    using t deliver_contains_user_errors [of demo_env demo_thrower 1 "Some ''done''" "snd demo_called"
        "Error ''boom''" demo_dispatcher 1 "Some ''done''"] c u
      deliver_user [of demo_env demo_thrower 1 "Some ''done''" "snd demo_called"]
    by (simp add: throwing_def count_calls_def)
qed

subsection \<open>The reflective proxy\<close>

text \<open>
  C10. For every plugin name the property \<open>then\<close> of the plugin proxy is
  \<open>undefined\<close>, which is not a function; so resolving a promise with the proxy, or
  awaiting it, calls nothing and leaves the bridge as it is: no native call is made and
  no pending call is stored.
\<close>

theorem then_is_undefined:
  "proxy_get S pluginName (PString ''then'') = VUndefined \<and>
   \<not> callable (proxy_get S pluginName (PString ''then'')) \<and>
   resolve_with_proxy E B S stringify_params pluginName thenArgs resolve reject s = s"
  by (simp add: proxy_get_def resolve_with_proxy_def)

theorem then_is_undefined_witness:
  "proxy_get demo_strings ''chat'' (PString ''then'') = VUndefined \<and>
   resolve_with_proxy demo_env demo_builtins demo_strings demo_stringify ''chat''
     [JFunction demo_listener, JFunction demo_listener] (\<lambda>m u. u) (\<lambda>r u. u) demo_ready = demo_ready \<and>
   proxy_get demo_strings ''chat'' (PString ''them'') = VMethod ''chat'' ''them''"
  using then_is_undefined [of demo_strings "''chat''" demo_env demo_builtins demo_stringify
      "[JFunction demo_listener, JFunction demo_listener]" "\<lambda>m u. u" "\<lambda>r u. u" demo_ready]
  by (simp add: proxy_get_def)







lemma proxy_get_on:
  "rest \<noteq> [] \<Longrightarrow>
   proxy_get S pluginName (PString (''on'' @ rest)) =
     VSubscribe pluginName (''on'' @ rest) (decapitalize S rest)"
  by (simp add: proxy_get_def)

lemma registerEventListener_ready:
  "isInitialized s \<Longrightarrow> LogosCore s = Some lib \<Longrightarrow>
   registerEventListener E pluginName eventName callback s =
     (Inr (fst (generateCallbackId E s)),
      s\<lparr>readings := Suc (readings s),
        eventListeners := (eventListeners s)(fst (generateCallbackId E s) \<mapsto>
          \<lparr>el_pluginName = pluginName, el_eventName = eventName, el_callback = callback,
           el_ffiCallback = createFFICallback callback (fst (generateCallbackId E s))\<rparr>),
        trace := trace s @
          [(logos_core_register_event_listener pluginName eventName
              (createFFICallback callback (fst (generateCallbackId E s))) 0, RVoid)]\<rparr>)"
  by (simp add: registerEventListener_def generateCallbackId_def call_native_def Let_def)

text \<open>
  C7. A property \<open>on\<close> followed by a non-empty remainder yields the subscription
  function for the decapitalized remainder, which is the lower case of the first
  character of the remainder followed by the rest of it, by the platform's string
  methods. Called with a listener on an initialised bridge, it stores the listener
  (wrapped) under a fresh id with the plugin and event name, registers the dispatcher
  of that wrapper with the native side for that event, and returns the id. A delivery
  to that dispatcher runs the listener once. With \<open>p\<close> the value of \<open>JSON.parse\<close> on
  the message when it parses and the raw message when it does not, the listener is
  called with \<open>p\<close> when the result code is \<open>1\<close>, and with the error object holding
  \<open>p\<close> otherwise.
\<close>

theorem on_event_subscription:
  assumes "rest \<noteq> []" and "isInitialized s" and "LogosCore s = Some lib"
  shows
   "proxy_get S pluginName (PString (''on'' @ rest)) =
      VSubscribe pluginName (''on'' @ rest) (decapitalize S rest) \<and>
    decapitalize S rest = toLowerCase S (charAt0 S rest) @ slice1 S rest \<and>
    proxy_call E B stringify_params (proxy_get S pluginName (PString (''on'' @ rest)))
        (JFunction listener # others) resolve reject s =
      (Inr (CSubscription (fst (generateCallbackId E s))),
       s\<lparr>readings := Suc (readings s),
         eventListeners := (eventListeners s)(fst (generateCallbackId E s) \<mapsto>
           \<lparr>el_pluginName = pluginName, el_eventName = decapitalize S rest,
            el_callback = listener_wrapper listener,
            el_ffiCallback =
              createFFICallback (listener_wrapper listener) (fst (generateCallbackId E s))\<rparr>),
         trace := trace s @
           [(logos_core_register_event_listener pluginName (decapitalize S rest)
               (createFFICallback (listener_wrapper listener) (fst (generateCallbackId E s))) 0,
             RVoid)]\<rparr>) \<and>
    user (snd (deliver E (createFFICallback (listener_wrapper listener) listenerId) result msg t)) =
      snd (listener
             (if result = 1
              then Payload (case JSON_parse E msg of Some j \<Rightarrow> Parsed j | None \<Rightarrow> Raw msg)
              else ErrorObject (case JSON_parse E msg of Some j \<Rightarrow> Parsed j | None \<Rightarrow> Raw msg))
             (user t))"
proof -
  have g: "proxy_get S pluginName (PString (''on'' @ rest)) =
      VSubscribe pluginName (''on'' @ rest) (decapitalize S rest)"
    using assms(1) by (rule proxy_get_on)
  have l: "decapitalize S rest = toLowerCase S (charAt0 S rest) @ slice1 S rest"
    using assms(1) by (simp add: decapitalize_def)
  have d: "user (snd (deliver E (createFFICallback (listener_wrapper listener) listenerId) result msg t)) =
      snd (listener
             (if result = 1
              then Payload (case JSON_parse E msg of Some j \<Rightarrow> Parsed j | None \<Rightarrow> Raw msg)
              else ErrorObject (case JSON_parse E msg of Some j \<Rightarrow> Parsed j | None \<Rightarrow> Raw msg))
             (user t))"
    by (simp add: deliver_user createFFICallback_def listener_wrapper_def parseMessage_def)
  show ?thesis
    using g l d registerEventListener_ready [OF assms(2,3)]
    by (simp add: proxy_call_def subscribe_def)
qed

theorem on_event_subscription_witness:
  "''ChatMessage'' \<noteq> [] \<and> isInitialized demo_ready \<and>
   LogosCore demo_ready = Some ''/sdk/lib/liblogos_core.so'' \<and>
   proxy_get demo_strings ''chat'' (PString ''onChatMessage'') =
     VSubscribe ''chat'' ''onChatMessage'' ''chatMessage'' \<and>
   fst (proxy_call demo_env demo_builtins demo_stringify
          (VSubscribe ''chat'' ''onChatMessage'' ''chatMessage'') [JFunction demo_listener]
          (\<lambda>m u. u) (\<lambda>r u. u) demo_ready) = Inr (CSubscription demo_callbackId) \<and>
   eventListeners
     (snd (proxy_call demo_env demo_builtins demo_stringify
          (VSubscribe ''chat'' ''onChatMessage'' ''chatMessage'') [JFunction demo_listener]
          (\<lambda>m u. u) (\<lambda>r u. u) demo_ready)) demo_callbackId =
     Some \<lparr>el_pluginName = ''chat'', el_eventName = ''chatMessage'',
           el_callback = listener_wrapper demo_listener,
           el_ffiCallback = createFFICallback (listener_wrapper demo_listener) demo_callbackId\<rparr> \<and>
   JSON_parse demo_env (Some ''{}'') = Some ''{}'' \<and>
   JSON_parse demo_env (Some ''failed'') = None \<and>
   user (snd (deliver demo_env (createFFICallback (listener_wrapper demo_listener) demo_callbackId)
                1 (Some ''{}'') demo_ready)) = 1 \<and>
   user (snd (deliver demo_env (createFFICallback (listener_wrapper demo_listener) demo_callbackId)
                1 (Some ''failed'') demo_ready)) = 10 \<and>
   user (snd (deliver demo_env (createFFICallback (listener_wrapper demo_listener) demo_callbackId)
                0 (Some ''{}'') demo_ready)) = 100 \<and>
   user (snd (deliver demo_env (createFFICallback (listener_wrapper demo_listener) demo_callbackId)
                0 (Some ''failed'') demo_ready)) = 1000"
proof -
  have a: "''ChatMessage'' \<noteq> []" by simp
  have b: "isInitialized demo_ready" by (simp add: demo_ready_eq)
  have c: "LogosCore demo_ready = Some ''/sdk/lib/liblogos_core.so''" by (simp add: demo_ready_eq)
  have d: "toLowerCase demo_strings (charAt0 demo_strings ''ChatMessage'') @
           slice1 demo_strings ''ChatMessage'' = ''chatMessage''"
    by (simp add: demo_strings_def demo_lower_def)
  have g: "fst (generateCallbackId demo_env demo_ready) = demo_callbackId"
    by (simp add: generateCallbackId_def demo_env_def demo_ready_eq demo_callbackId_def)
  have u: "user demo_ready = 0" by (simp add: demo_ready_eq)
  have p: "JSON_parse demo_env (Some ''{}'') = Some ''{}''"
    "JSON_parse demo_env (Some ''failed'') = None"
    by (simp_all add: demo_env_def)
  note w = on_event_subscription [OF a b c, of demo_strings "''chat''" demo_env demo_builtins
      demo_stringify demo_listener "[]" "\<lambda>m u. u" "\<lambda>r u. u" demo_callbackId]
  have e: "decapitalize demo_strings ''ChatMessage'' = ''chatMessage''"
    using w [of 1 "Some ''{}''" demo_ready, THEN conjunct2, THEN conjunct1] d by simp
  have get: "proxy_get demo_strings ''chat'' (PString ''onChatMessage'') =
     VSubscribe ''chat'' ''onChatMessage'' ''chatMessage''"
    using w [of 1 "Some ''{}''" demo_ready, THEN conjunct1] e by simp
  have call: "proxy_call demo_env demo_builtins demo_stringify
          (VSubscribe ''chat'' ''onChatMessage'' ''chatMessage'') [JFunction demo_listener]
          (\<lambda>m u. u) (\<lambda>r u. u) demo_ready =
      (Inr (CSubscription demo_callbackId),
       demo_ready\<lparr>readings := Suc (readings demo_ready),
         eventListeners := (eventListeners demo_ready)(demo_callbackId \<mapsto>
           \<lparr>el_pluginName = ''chat'', el_eventName = ''chatMessage'',
            el_callback = listener_wrapper demo_listener,
            el_ffiCallback = createFFICallback (listener_wrapper demo_listener) demo_callbackId\<rparr>),
         trace := trace demo_ready @
           [(logos_core_register_event_listener ''chat'' ''chatMessage''
               (createFFICallback (listener_wrapper demo_listener) demo_callbackId) 0,
             RVoid)]\<rparr>)"
    using w [of 1 "Some ''{}''" demo_ready, THEN conjunct2, THEN conjunct2, THEN conjunct1]
    unfolding get [symmetric] e g by simp
  have d1: "user (snd (deliver demo_env
        (createFFICallback (listener_wrapper demo_listener) demo_callbackId)
                1 (Some ''{}'') demo_ready)) = 1"
    using w [of 1 "Some ''{}''" demo_ready, THEN conjunct2, THEN conjunct2, THEN conjunct2]
    by (simp add: p u demo_listener_def)
  have d2: "user (snd (deliver demo_env
        (createFFICallback (listener_wrapper demo_listener) demo_callbackId)
                1 (Some ''failed'') demo_ready)) = 10"
    using w [of 1 "Some ''failed''" demo_ready, THEN conjunct2, THEN conjunct2, THEN conjunct2]
    by (simp add: p u demo_listener_def)
  have d3: "user (snd (deliver demo_env
        (createFFICallback (listener_wrapper demo_listener) demo_callbackId)
                0 (Some ''{}'') demo_ready)) = 100"
    using w [of 0 "Some ''{}''" demo_ready, THEN conjunct2, THEN conjunct2, THEN conjunct2]
    by (simp add: p u demo_listener_def)
  have d4: "user (snd (deliver demo_env
        (createFFICallback (listener_wrapper demo_listener) demo_callbackId)
                0 (Some ''failed'') demo_ready)) = 1000"
    using w [of 0 "Some ''failed''" demo_ready, THEN conjunct2, THEN conjunct2, THEN conjunct2]
    by (simp add: p u demo_listener_def)
  show ?thesis
    unfolding call using a b c get p d1 d2 d3 d4 by simp
qed

subsection \<open>Processing and loading one plugin\<close>

lemma processPlugin_trace:
  "processPlugin E pluginName s = (r, s1) \<Longrightarrow>
   trace s1 = trace s \<or> (\<exists>p x. trace s1 = trace s @ [(logos_core_process_plugin p, x)])"
  by (auto simp: processPlugin_def call_native_def Let_def split: if_splits option.splits)

text \<open>
  C6. When the process step returns false, \<open>processAndLoadPlugin\<close> throws the error
  \<open>Failed to process plugin: <name>\<close> in the state the process step left, to which
  no load call has been added. When the process step returns true and the load step
  returns false, it throws \<open>Failed to load plugin: <name>\<close>. When both return true,
  it returns true.
\<close>

theorem processAndLoadPlugin_steps:
  "(processPlugin E pluginName s = (Inr False, s1) \<longrightarrow>
      processAndLoadPlugin E pluginName s =
        (Inl (Error (''Failed to process plugin: '' @ pluginName)), s1) \<and>
      (\<forall>n r. (logos_core_load_plugin n, r) \<in> set (trace s1) \<longrightarrow>
             (logos_core_load_plugin n, r) \<in> set (trace s))) \<and>
   (processPlugin E pluginName s = (Inr True, s1) \<and> loadPlugin E pluginName s1 = (Inr False, s2) \<longrightarrow>
      processAndLoadPlugin E pluginName s =
        (Inl (Error (''Failed to load plugin: '' @ pluginName)), s2)) \<and>
   (processPlugin E pluginName s = (Inr True, s1) \<and> loadPlugin E pluginName s1 = (Inr True, s2) \<longrightarrow>
      processAndLoadPlugin E pluginName s = (Inr True, s2))"
proof -
  have "processPlugin E pluginName s = (Inr False, s1) \<Longrightarrow>
        (\<forall>n r. (logos_core_load_plugin n, r) \<in> set (trace s1) \<longrightarrow>
             (logos_core_load_plugin n, r) \<in> set (trace s))"
    using processPlugin_trace [of E pluginName s "Inr False" s1] by auto
  then show ?thesis
    by (auto simp: processAndLoadPlugin_def)
qed

lemma processPlugin_demo:
  "processPlugin demo_env n demo_ready =
     (Inr (n \<noteq> ''b''),
      demo_ready\<lparr>trace := trace demo_ready @
        [(logos_core_process_plugin (''/app/plugins/'' @ n @ ''_plugin.so''),
          RString (if n = ''b'' then None else Some ''ok''))]\<rparr>)"
  by (simp add: processPlugin_def pluginPath_def call_native_def resolvePluginsDir_def
      getLibraryExtension_def demo_env_def demo_ready_eq Let_def)


lemma processPlugin_demo_no_load:
  "processPlugin demo_env_no_load n demo_ready = processPlugin demo_env n demo_ready"
  by (simp add: processPlugin_def pluginPath_def call_native_def resolvePluginsDir_def
      getLibraryExtension_def demo_env_def demo_env_no_load_def demo_ready_eq Let_def)

lemma loadPlugin_demo:
  "isInitialized s \<Longrightarrow> LogosCore s = Some lib \<Longrightarrow>
   loadPlugin demo_env n s =
     (Inr True, s\<lparr>trace := trace s @ [(logos_core_load_plugin n, RInt 1)]\<rparr>) \<and>
   loadPlugin demo_env_no_load n s =
     (Inr False, s\<lparr>trace := trace s @ [(logos_core_load_plugin n, RInt 0)]\<rparr>)"
  by (simp add: loadPlugin_def call_native_def demo_env_def demo_env_no_load_def Let_def)

theorem processAndLoadPlugin_steps_witness:
  "processPlugin demo_env ''b'' demo_ready =
     (Inr False,
      demo_ready\<lparr>trace := trace demo_ready @
        [(logos_core_process_plugin ''/app/plugins/b_plugin.so'', RString None)]\<rparr>) \<and>
   processAndLoadPlugin demo_env ''b'' demo_ready =
     (Inl (Error ''Failed to process plugin: b''),
      demo_ready\<lparr>trace := trace demo_ready @
        [(logos_core_process_plugin ''/app/plugins/b_plugin.so'', RString None)]\<rparr>) \<and>
   processAndLoadPlugin demo_env_no_load ''a'' demo_ready =
     (Inl (Error ''Failed to load plugin: a''),
      demo_ready\<lparr>trace := trace demo_ready @
        [(logos_core_process_plugin ''/app/plugins/a_plugin.so'', RString (Some ''ok'')),
         (logos_core_load_plugin ''a'', RInt 0)]\<rparr>) \<and>
   processAndLoadPlugin demo_env ''a'' demo_ready =
     (Inr True,
      demo_ready\<lparr>trace := trace demo_ready @
        [(logos_core_process_plugin ''/app/plugins/a_plugin.so'', RString (Some ''ok'')),
         (logos_core_load_plugin ''a'', RInt 1)]\<rparr>)"
proof -
  let ?sb = "demo_ready\<lparr>trace := trace demo_ready @
        [(logos_core_process_plugin ''/app/plugins/b_plugin.so'', RString None)]\<rparr>"
  let ?sa = "demo_ready\<lparr>trace := trace demo_ready @
        [(logos_core_process_plugin ''/app/plugins/a_plugin.so'', RString (Some ''ok''))]\<rparr>"
  let ?sx = "demo_ready\<lparr>trace := trace demo_ready @
        [(logos_core_process_plugin ''/app/plugins/a_plugin.so'', RString (Some ''ok'')),
         (logos_core_load_plugin ''a'', RInt 0)]\<rparr>"
  let ?sy = "demo_ready\<lparr>trace := trace demo_ready @
        [(logos_core_process_plugin ''/app/plugins/a_plugin.so'', RString (Some ''ok'')),
         (logos_core_load_plugin ''a'', RInt 1)]\<rparr>"
  have pb: "processPlugin demo_env ''b'' demo_ready = (Inr False, ?sb)"
    by (simp add: processPlugin_demo)
  have pa: "processPlugin demo_env ''a'' demo_ready = (Inr True, ?sa)"
    by (simp add: processPlugin_demo)
  have pa0: "processPlugin demo_env_no_load ''a'' demo_ready = (Inr True, ?sa)"
    by (simp add: processPlugin_demo_no_load processPlugin_demo)
  have init: "isInitialized ?sa" "LogosCore ?sa = Some ''/sdk/lib/liblogos_core.so''"
    by (simp_all add: demo_ready_eq)
  have l1: "loadPlugin demo_env ''a'' ?sa = (Inr True, ?sy)"
    using loadPlugin_demo [OF init, of "''a''"] by simp
  have l0: "loadPlugin demo_env_no_load ''a'' ?sa = (Inr False, ?sx)"
    using loadPlugin_demo [OF init, of "''a''"] by simp
  show ?thesis
    using pb pa pa0 l1 l0
      processAndLoadPlugin_steps [of demo_env "''b''" demo_ready ?sb ?sb]
      processAndLoadPlugin_steps [of demo_env_no_load "''a''" demo_ready ?sa ?sx]
      processAndLoadPlugin_steps [of demo_env "''a''" demo_ready ?sa ?sy]
    by simp
qed

subsection \<open>Lifecycle\<close>

lemma guarded_calls_throw:
  assumes "\<not> isInitialized s"
  shows "start E s = (Inl (Error ''LogosAPI must be initialized before starting''), s) \<and>
      getLoadedPlugins E s = (Inl not_initialized, s) \<and>
      getKnownPlugins E s = (Inl not_initialized, s) \<and>
      getPluginStatus E s = (Inl not_initialized, s) \<and>
      processPlugin E n s = (Inl not_initialized, s) \<and>
      loadPlugin E n s = (Inl not_initialized, s) \<and>
      unloadPlugin E n s = (Inl not_initialized, s) \<and>
      processAndLoadPlugin E n s = (Inl not_initialized, s) \<and>
      callPluginMethodAsync E p m params cb s = (Inl not_initialized, s) \<and>
      registerEventListener E p ev cb s = (Inl not_initialized, s) \<and>
      exec E s = (Inl not_initialized, s)"
  using assms
  by (simp add: start_def getLoadedPlugins_def getKnownPlugins_def getPluginStatus_def
      processPlugin_def loadPlugin_def unloadPlugin_def processAndLoadPlugin_def
      callPluginMethodAsync_def registerEventListener_def exec_def)

text \<open>
  C2, as the code has it. On a bridge that is not initialised, each method that checks
  \<open>isInitialized\<close> (\<open>start\<close>, \<open>getLoadedPlugins\<close>, \<open>getKnownPlugins\<close>,
  \<open>getPluginStatus\<close>, \<open>processPlugin\<close>, \<open>loadPlugin\<close>, \<open>unloadPlugin\<close>,
  \<open>processAndLoadPlugin\<close>, \<open>callPluginMethodAsync\<close>, \<open>registerEventListener\<close>,
  \<open>exec\<close>) throws its lifecycle error and leaves the whole state, and so the native
  trace, as it was. \<open>startEventProcessing\<close> has no such check: it makes no native
  call itself, and it returns true when no pump is running; the tick of its timer makes
  no native call while no library is loaded. On an initialised bridge \<open>init\<close> throws
  and leaves the state as it was.
\<close>

theorem uninitialized_calls_throw:
  "(\<not> isInitialized s \<longrightarrow>
      start E s = (Inl (Error ''LogosAPI must be initialized before starting''), s) \<and>
      getLoadedPlugins E s = (Inl not_initialized, s) \<and>
      getKnownPlugins E s = (Inl not_initialized, s) \<and>
      getPluginStatus E s = (Inl not_initialized, s) \<and>
      processPlugin E n s = (Inl not_initialized, s) \<and>
      loadPlugin E n s = (Inl not_initialized, s) \<and>
      unloadPlugin E n s = (Inl not_initialized, s) \<and>
      processAndLoadPlugin E n s = (Inl not_initialized, s) \<and>
      callPluginMethodAsync E p m params cb s = (Inl not_initialized, s) \<and>
      registerEventListener E p ev cb s = (Inl not_initialized, s) \<and>
      exec E s = (Inl not_initialized, s) \<and>
      trace (snd (startEventProcessing E interval s)) = trace s \<and>
      (eventProcessingInterval s = None \<longrightarrow>
         fst (startEventProcessing E interval s) = Inr True) \<and>
      (LogosCore s = None \<longrightarrow> interval_tick E s = (Inr (), s))) \<and>
   (isInitialized s \<longrightarrow> init E s = (Inl (Error ''LogosAPI is already initialized''), s))"
  using guarded_calls_throw [of s E n p m params cb ev]
  by (auto simp: startEventProcessing_def interval_tick_def init_def split: option.splits)

theorem uninitialized_calls_throw_witness:
  "\<not> isInitialized (fresh None None 0 :: (string, nat) bridge) \<and>
   start demo_env (fresh None None 0) =
     (Inl (Error ''LogosAPI must be initialized before starting''), fresh None None 0) \<and>
   loadPlugin demo_env ''chat'' (fresh None None 0) = (Inl not_initialized, fresh None None 0) \<and>
   callPluginMethodAsync demo_env ''chat'' ''send'' ''[]'' count_calls (fresh None None 0) =
     (Inl not_initialized, fresh None None 0) \<and>
   exec demo_env (fresh None None 0) = (Inl not_initialized, fresh None None 0) \<and>
   eventProcessingInterval (fresh None None 0 :: (string, nat) bridge) = None \<and>
   fst (startEventProcessing demo_env None (fresh None None 0)) = Inr True \<and>
   LogosCore (fresh None None 0 :: (string, nat) bridge) = None \<and>
   interval_tick demo_env (fresh None None 0) = (Inr (), fresh None None 0) \<and>
   isInitialized demo_ready \<and>
   init demo_env demo_ready = (Inl (Error ''LogosAPI is already initialized''), demo_ready)"
proof -
  have a: "\<not> isInitialized (fresh None None 0 :: (string, nat) bridge)"
    "eventProcessingInterval (fresh None None 0 :: (string, nat) bridge) = None"
    "LogosCore (fresh None None 0 :: (string, nat) bridge) = None"
    by (simp_all add: fresh_def)
  have b: "isInitialized demo_ready" by (simp add: demo_ready_eq)
  show ?thesis
    using a b
      uninitialized_calls_throw [of "fresh None None 0" demo_env "''chat''" "''chat''" "''send''"
        "''[]''" count_calls "''chatMessage''" None]
      uninitialized_calls_throw [of demo_ready demo_env]
    by simp
qed

text \<open>
  C2 as stated fails for \<open>startEventProcessing\<close>: on the bridge constructed with
  \<open>autoInit: false\<close>, not initialised, it returns true and sets the timer.
\<close>

theorem startEventProcessing_before_init_counterexample:
  "LogosAPI demo_env None None False 0 = (Inr (), fresh None None 0) \<and>
   isInitialized (fresh None None 0 :: (string, nat) bridge) = False \<and>
   startEventProcessing demo_env None (fresh None None 0) =
     (Inr True, (fresh None None 0)\<lparr>eventProcessingInterval := Some 100\<rparr>)"
  by (simp add: LogosAPI_def startEventProcessing_def fresh_def)

text \<open>
  C3, as the code has it. \<open>cleanup\<close> always returns; afterwards the bridge is not
  initialised and not started, the pump that was running is stopped (its timer no
  longer fires), both maps are empty, and each method that checks \<open>isInitialized\<close>
  throws its lifecycle error and leaves the state, and so the native trace, as it was.
\<close>

theorem after_cleanup_guarded_calls_throw:
  assumes "cleanup E s = (r, s')"
  shows "r = Inr () \<and> \<not> isInitialized s' \<and> \<not> isStarted s' \<and>
      eventProcessingInterval s' = None \<and> timer_fires E s' = (Inr (), s') \<and>
      callbacks s' = Map.empty \<and> eventListeners s' = Map.empty \<and>
      start E s' = (Inl (Error ''LogosAPI must be initialized before starting''), s') \<and>
      getLoadedPlugins E s' = (Inl not_initialized, s') \<and>
      getKnownPlugins E s' = (Inl not_initialized, s') \<and>
      getPluginStatus E s' = (Inl not_initialized, s') \<and>
      processPlugin E n s' = (Inl not_initialized, s') \<and>
      loadPlugin E n s' = (Inl not_initialized, s') \<and>
      unloadPlugin E n s' = (Inl not_initialized, s') \<and>
      processAndLoadPlugin E n s' = (Inl not_initialized, s') \<and>
      callPluginMethodAsync E p m params cb s' = (Inl not_initialized, s') \<and>
      registerEventListener E p ev cb s' = (Inl not_initialized, s') \<and>
      exec E s' = (Inl not_initialized, s')"
proof -
  from assms have a: "r = Inr ()" "\<not> isInitialized s'" "\<not> isStarted s'"
    "eventProcessingInterval s' = None" "callbacks s' = Map.empty" "eventListeners s' = Map.empty"
    by (auto simp: cleanup_def stopEventProcessing_def call_native_def Let_def
        split: option.splits prod.splits sum.splits)
  have t: "timer_fires E s' = (Inr (), s')" using a(4) by (simp add: timer_fires_def)
  show ?thesis using a t guarded_calls_throw [OF a(2), of E n p m params cb ev] by simp
qed


lemma demo_cleaned_eq:
  "cleanup demo_env demo_ready =
     (Inr (), demo_ready\<lparr>isInitialized := False,
        trace := trace demo_ready @ [(logos_core_cleanup, RVoid)]\<rparr>)"
  by (simp add: cleanup_def stopEventProcessing_def call_native_def demo_ready_eq Let_def)

theorem after_cleanup_guarded_calls_throw_witness:
  "cleanup demo_env demo_ready = (Inr (), demo_cleaned) \<and>
   \<not> isInitialized demo_cleaned \<and>
   timer_fires demo_env demo_cleaned = (Inr (), demo_cleaned) \<and>
   start demo_env demo_cleaned =
     (Inl (Error ''LogosAPI must be initialized before starting''), demo_cleaned) \<and>
   getLoadedPlugins demo_env demo_cleaned = (Inl not_initialized, demo_cleaned) \<and>
   loadPlugin demo_env ''chat'' demo_cleaned = (Inl not_initialized, demo_cleaned) \<and>
   callPluginMethodAsync demo_env ''chat'' ''send'' ''[]'' count_calls demo_cleaned =
     (Inl not_initialized, demo_cleaned) \<and>
   exec demo_env demo_cleaned = (Inl not_initialized, demo_cleaned)"
proof -
  have run: "cleanup demo_env demo_ready = (Inr (), demo_cleaned)"
    by (simp add: demo_cleaned_def demo_cleaned_eq)
  show ?thesis
    using run after_cleanup_guarded_calls_throw [OF run, of "''chat''" "''chat''" "''send''"
        "''[]''" count_calls "''chatMessage''"]
    by simp
qed

text \<open>
  C3 as stated fails for the pump: after \<open>init\<close> and \<open>cleanup\<close>,
  \<open>startEventProcessing\<close> returns true, and the tick of the new timer calls
  \<open>logos_core_process_events\<close> after \<open>logos_core_cleanup\<close>, without any error.
\<close>

theorem pump_after_cleanup_counterexample:
  "isInitialized demo_cleaned = False \<and>
   last (trace demo_cleaned) = (logos_core_cleanup, RVoid) \<and>
   fst demo_restarted = Inr True \<and>
   fst (timer_fires demo_env (snd demo_restarted)) = Inr () \<and>
   trace (snd (timer_fires demo_env (snd demo_restarted))) =
     trace demo_cleaned @ [(logos_core_process_events, RVoid)]"
proof -
  have c: "demo_cleaned =
     \<lparr>options_libPath = None, options_pluginsDir = None,
      LogosCore = Some ''/sdk/lib/liblogos_core.so'',
      isInitialized = False, isStarted = False, eventProcessingInterval = None,
      callbacks = Map.empty, eventListeners = Map.empty,
      trace = [(logos_core_init 0 0, RVoid), (logos_core_set_plugins_dir ''/app/plugins'', RVoid),
               (logos_core_cleanup, RVoid)],
      console = [], user = 0, readings = 0\<rparr>"
    by (simp add: demo_cleaned_def demo_cleaned_eq) (simp add: demo_ready_eq)
  show ?thesis
    by (simp add: demo_restarted_def c startEventProcessing_def timer_fires_def
        interval_tick_def call_native_def Let_def)
qed

subsection \<open>Processing and loading a batch\<close>




lemma inherited_not_Entry [simp]: "inherited p k \<noteq> Entry e"
  by (simp add: inherited_def split: option.splits)

lemma slot_inherited [simp]:
  "(case inherited p k of Entry e \<Rightarrow> Some e | Other \<Rightarrow> None | Undefined \<Rightarrow> None) = None"
  by (cases "inherited p k") simp_all








lemma pluginPath_trace [simp]: "pluginPath E (s\<lparr>trace := h\<rparr>) n = pluginPath E s n"
  by (simp add: pluginPath_def resolvePluginsDir_def)

















end
